theory Spec2Isabelle
  imports Complex_Main
begin

section \<open>JavaScript values\<close>

text \<open>
  A JavaScript string is a sequence of UTF-16 code units; a code unit is a natural number.
  \<open>lit\<close> turns an ASCII literal of the source into such a sequence.
\<close>

type_synonym jsstring = "nat list"

definition lit :: "string \<Rightarrow> jsstring" where
  "lit s = map of_char s"

text \<open>
  The values that \<open>JSON.parse\<close> returns, and \<open>undefined\<close> for a property that is absent.
  A number is its exact rational value: rounding to a double and the overflow to
  \<open>Infinity\<close> are not modelled, and \<open>JSON.parse\<close> never returns \<open>NaN\<close>. An object is
  the list of its own properties in the order of their insertion (JavaScript lists keys
  that are array indices first, which no function here depends on); every key occurs once.
\<close>

datatype jsval =
    JUndefined
  | JNull
  | JBool bool
  | JNum rat
  | JStr jsstring
  | JArr "jsval list"
  | JObj "(jsstring \<times> jsval) list"

datatype js_error = TypeError | SyntaxError | Error jsstring

text \<open>A thrown exception is \<open>Inl\<close>; \<open>bindE\<close> sequences two steps, the first throw wins.\<close>

definition bindE :: "'e + 'a \<Rightarrow> ('a \<Rightarrow> 'e + 'b) \<Rightarrow> 'e + 'b" where
  "bindE m f = (case m of Inl e \<Rightarrow> Inl e | Inr v \<Rightarrow> f v)"

fun mapE :: "('a \<Rightarrow> 'e + 'b) \<Rightarrow> 'a list \<Rightarrow> 'e + 'b list" where
  "mapE f [] = Inr []"
| "mapE f (x # xs) = bindE (f x) (\<lambda>y. bindE (mapE f xs) (\<lambda>ys. Inr (y # ys)))"

text \<open>\<open>!v\<close> is \<open>\<not> truthy v\<close>; \<open>a || b\<close> is \<open>js_or a b\<close>.\<close>

fun truthy :: "jsval \<Rightarrow> bool" where
  "truthy JUndefined = False"
| "truthy JNull = False"
| "truthy (JBool b) = b"
| "truthy (JNum x) = (x \<noteq> 0)"
| "truthy (JStr s) = (s \<noteq> [])"
| "truthy (JArr xs) = True"
| "truthy (JObj kvs) = True"

definition js_or :: "jsval \<Rightarrow> jsval \<Rightarrow> jsval" where
  "js_or a b = (if truthy a then a else b)"

definition lookup :: "(jsstring \<times> jsval) list \<Rightarrow> string \<Rightarrow> jsval" where
  "lookup kvs k = (case map_of kvs (lit k) of None \<Rightarrow> JUndefined | Some v \<Rightarrow> v)"

text \<open>
  \<open>v.k\<close> throws a TypeError on \<open>undefined\<close> and \<open>null\<close>. The property names that the
  source reads are none of the built-in properties of strings, numbers, booleans and
  arrays, so on those receivers the read gives \<open>undefined\<close>.
\<close>

fun getProp :: "jsval \<Rightarrow> string \<Rightarrow> js_error + jsval" where
  "getProp JUndefined k = Inl TypeError"
| "getProp JNull k = Inl TypeError"
| "getProp (JObj kvs) k = Inr (lookup kvs k)"
| "getProp (JBool b) k = Inr JUndefined"
| "getProp (JNum x) k = Inr JUndefined"
| "getProp (JStr s) k = Inr JUndefined"
| "getProp (JArr xs) k = Inr JUndefined"

text \<open>\<open>v?.k\<close>: \<open>undefined\<close> on \<open>undefined\<close> and \<open>null\<close>, the property otherwise.\<close>

fun optProp :: "jsval \<Rightarrow> string \<Rightarrow> jsval" where
  "optProp JUndefined k = JUndefined"
| "optProp JNull k = JUndefined"
| "optProp (JObj kvs) k = lookup kvs k"
| "optProp (JBool b) k = JUndefined"
| "optProp (JNum x) k = JUndefined"
| "optProp (JStr s) k = JUndefined"
| "optProp (JArr xs) k = JUndefined"

fun isArray :: "jsval \<Rightarrow> bool" where
  "isArray (JArr xs) = True"
| "isArray v = False"

text \<open>\<open>typeof v === 'number'\<close>\<close>

fun isNumber :: "jsval \<Rightarrow> bool" where
  "isNumber (JNum x) = True"
| "isNumber v = False"

text \<open>
  \<open>[s1, ..., sn].includes(v)\<close> for an array literal of strings: \<open>v\<close> is one of the strings.
\<close>

definition js_includes :: "string list \<Rightarrow> jsval \<Rightarrow> bool" where
  "js_includes ss v = (v \<in> set (map (\<lambda>s. JStr (lit s)) ss))"

text \<open>
  \<open>v.slice(b, e)\<close> with \<open>0 \<le> b \<le> e\<close>: arrays and strings have the method, on any other
  value the call throws a TypeError.
\<close>

fun slice :: "jsval \<Rightarrow> nat \<Rightarrow> nat \<Rightarrow> js_error + jsval" where
  "slice (JArr xs) b e = Inr (JArr (take (e - b) (drop b xs)))"
| "slice (JStr s) b e = Inr (JStr (take (e - b) (drop b s)))"
| "slice v b e = Inl TypeError"

fun js_map :: "jsval \<Rightarrow> (jsval \<Rightarrow> js_error + jsval) \<Rightarrow> js_error + jsval" where
  "js_map (JArr xs) f = bindE (mapE f xs) (\<lambda>ys. Inr (JArr ys))"
| "js_map v f = Inl TypeError"

text \<open>
  \<open>Math.max(lo, Math.min(hi, v))\<close> on a number \<open>v\<close>. The source calls it behind
  \<open>typeof v === 'number'\<close>, so the second equation is never reached.
\<close>

fun clamp :: "rat \<Rightarrow> rat \<Rightarrow> jsval \<Rightarrow> jsval" where
  "clamp lo hi (JNum x) = JNum (max lo (min hi x))"
| "clamp lo hi v = v"

section \<open>response-parser.js: the validators\<close>

text \<open>The arrow function of \<open>validateHighlights\<close>\<close>

definition highlight_item :: "jsval \<Rightarrow> js_error + jsval" where
  "highlight_item h =
     bindE (getProp h ''text'') (\<lambda>text.
     bindE (getProp h ''category'') (\<lambda>category.
     bindE (getProp h ''confidence'') (\<lambda>c.
     bindE (if isNumber c then getProp h ''confidence'' else Inr (JNum (7 / 10))) (\<lambda>confidence.
     bindE (getProp h ''reasoning'') (\<lambda>reasoning.
     Inr (JObj
       [(lit ''text'', js_or text (JStr (lit ''Analysis completed''))),
        (lit ''category'', js_or category (JStr (lit ''general''))),
        (lit ''confidence'', confidence),
        (lit ''reasoning'', js_or reasoning (JStr (lit ''Identified as positive indicator'')))]))))))"

definition validateHighlights :: "jsval \<Rightarrow> js_error + jsval" where
  "validateHighlights highlights =
     (if \<not> isArray highlights then Inr (JArr [])
      else bindE (slice highlights 0 6) (\<lambda>s. js_map s highlight_item))"

text \<open>The arrow function of \<open>validateImprovements\<close>\<close>

definition improvement_item :: "jsval \<Rightarrow> js_error + jsval" where
  "improvement_item i =
     bindE (getProp i ''text'') (\<lambda>text.
     bindE (getProp i ''suggestion'') (\<lambda>suggestion.
     bindE (getProp i ''priority'') (\<lambda>p.
     bindE (if js_includes [''high'', ''medium'', ''low''] p then getProp i ''priority''
            else Inr (JStr (lit ''medium''))) (\<lambda>priority.
     bindE (getProp i ''category'') (\<lambda>category.
     Inr (JObj
       [(lit ''text'', js_or text (JStr (lit ''Area for development identified''))),
        (lit ''suggestion'', js_or suggestion (JStr (lit ''Recommend focused practice''))),
        (lit ''priority'', priority),
        (lit ''category'', js_or category (JStr (lit ''general'')))]))))))"

definition validateImprovements :: "jsval \<Rightarrow> js_error + jsval" where
  "validateImprovements improvements =
     (if \<not> isArray improvements then Inr (JArr [])
      else bindE (slice improvements 0 4) (\<lambda>s. js_map s improvement_item))"

text \<open>
  \<open>Array.isArray(o?.k) ? o.k.slice(0, n) : dflt\<close>, the shape of every capped array field
  inside an object.
\<close>

definition capped :: "jsval \<Rightarrow> string \<Rightarrow> nat \<Rightarrow> jsval \<Rightarrow> js_error + jsval" where
  "capped obj k n dflt =
     (if isArray (optProp obj k) then bindE (getProp obj k) (\<lambda>a. slice a 0 n)
      else Inr dflt)"

definition validateTechnicalAssessment :: "jsval \<Rightarrow> js_error + jsval" where
  "validateTechnicalAssessment tech =
     bindE (if js_includes [''junior'', ''mid'', ''senior'', ''staff'', ''principal''] (optProp tech ''level'')
            then getProp tech ''level'' else Inr (JStr (lit ''mid''))) (\<lambda>level.
     bindE (capped tech ''skills_demonstrated'' 8 (JArr [])) (\<lambda>skills_demonstrated.
     bindE (capped tech ''knowledge_gaps'' 4 (JArr [])) (\<lambda>knowledge_gaps.
     Inr (JObj
       [(lit ''level'', level),
        (lit ''skills_demonstrated'', skills_demonstrated),
        (lit ''knowledge_gaps'', knowledge_gaps),
        (lit ''problem_solving_approach'',
           js_or (optProp tech ''problem_solving_approach'')
             (JStr (lit ''Structured problem-solving approach observed'')))]))))"

definition validateCommunicationAnalysis :: "jsval \<Rightarrow> js_error + jsval" where
  "validateCommunicationAnalysis comm =
     bindE (if js_includes [''poor'', ''fair'', ''good'', ''excellent''] (optProp comm ''clarity'')
            then getProp comm ''clarity'' else Inr (JStr (lit ''good''))) (\<lambda>clarity.
     Inr (JObj
       [(lit ''clarity'', clarity),
        (lit ''structure'', js_or (optProp comm ''structure'') (JStr (lit ''Well-organized responses''))),
        (lit ''listening'',
           js_or (optProp comm ''listening'') (JStr (lit ''Good comprehension of questions''))),
        (lit ''questioning'',
           js_or (optProp comm ''questioning'') (JStr (lit ''Asked relevant follow-up questions'')))]))"

definition validateEntities :: "jsval \<Rightarrow> js_error + jsval" where
  "validateEntities entities =
     bindE (capped entities ''technologies'' 10 (JArr [])) (\<lambda>technologies.
     bindE (capped entities ''companies'' 5 (JArr [])) (\<lambda>companies.
     bindE (capped entities ''projects'' 5 (JArr [])) (\<lambda>projects.
     bindE (capped entities ''methodologies'' 5 (JArr [])) (\<lambda>methodologies.
     Inr (JObj
       [(lit ''technologies'', technologies),
        (lit ''companies'', companies),
        (lit ''projects'', projects),
        (lit ''methodologies'', methodologies)])))))"

text \<open>The arrow function of \<open>validateInterviewFlow\<close>\<close>

definition flow_item :: "jsval \<Rightarrow> js_error + jsval" where
  "flow_item f =
     bindE (getProp f ''section'') (\<lambda>section.
     bindE (getProp f ''summary'') (\<lambda>summary.
     bindE (getProp f ''key_moments'') (\<lambda>k.
     bindE (if isArray k then bindE (getProp f ''key_moments'') (\<lambda>a. slice a 0 3)
            else Inr (JArr [])) (\<lambda>key_moments.
     bindE (getProp f ''duration_estimate'') (\<lambda>duration_estimate.
     Inr (JObj
       [(lit ''section'', js_or section (JStr (lit ''discussion''))),
        (lit ''summary'', js_or summary (JStr (lit ''Interview section covered''))),
        (lit ''key_moments'', key_moments),
        (lit ''duration_estimate'', js_or duration_estimate (JStr (lit ''5-10 minutes'')))]))))))"

definition validateInterviewFlow :: "jsval \<Rightarrow> js_error + jsval" where
  "validateInterviewFlow flow =
     (if \<not> isArray flow then Inr (JArr [])
      else bindE (slice flow 0 8) (\<lambda>s. js_map s flow_item))"

definition validateOverallRecommendation :: "jsval \<Rightarrow> js_error + jsval" where
  "validateOverallRecommendation rec =
     bindE (if js_includes [''strong_hire'', ''hire'', ''maybe'', ''no_hire''] (optProp rec ''decision'')
            then getProp rec ''decision'' else Inr (JStr (lit ''maybe''))) (\<lambda>decision.
     bindE (if isNumber (optProp rec ''confidence'')
            then bindE (getProp rec ''confidence'') (\<lambda>c. Inr (clamp 1 10 c))
            else Inr (JNum 7)) (\<lambda>confidence.
     bindE (capped rec ''key_strengths'' 4 (JArr [JStr (lit ''Analysis completed'')])) (\<lambda>key_strengths.
     bindE (capped rec ''main_concerns'' 3 (JArr [])) (\<lambda>main_concerns.
     Inr (JObj
       [(lit ''decision'', decision),
        (lit ''confidence'', confidence),
        (lit ''key_strengths'', key_strengths),
        (lit ''main_concerns'', main_concerns),
        (lit ''cultural_fit'',
           js_or (optProp rec ''cultural_fit'')
             (JStr (lit ''Positive indicators for team collaboration''))),
        (lit ''next_steps'',
           js_or (optProp rec ''next_steps'')
             (JStr (lit ''Recommend technical deep-dive interview'')))])))))"

definition validateInterviewQuality :: "jsval \<Rightarrow> js_error + jsval" where
  "validateInterviewQuality quality =
     bindE (capped quality ''areas_not_explored'' 3 (JArr [])) (\<lambda>areas_not_explored.
     bindE (capped quality ''suggested_follow_ups'' 4 (JArr [])) (\<lambda>suggested_follow_ups.
     Inr (JObj
       [(lit ''questions_effectiveness'',
           js_or (optProp quality ''questions_effectiveness'')
             (JStr (lit ''Standard interview questions covered relevant topics''))),
        (lit ''areas_not_explored'', areas_not_explored),
        (lit ''suggested_follow_ups'', suggested_follow_ups)])))"

text \<open>The fallback ignores both of its arguments.\<close>

definition createFallbackAnalysis :: "jsval \<Rightarrow> jsval \<Rightarrow> jsval" where
  "createFallbackAnalysis transcript rawResponse =
     JObj
       [(lit ''highlights'', JArr [JObj
           [(lit ''text'', JStr (lit ''AI analysis completed but response parsing failed'')),
            (lit ''category'', JStr (lit ''general'')),
            (lit ''confidence'', JNum (1 / 2)),
            (lit ''reasoning'', JStr (lit ''Technical issue with response format''))]]),
        (lit ''improvements'', JArr [JObj
           [(lit ''text'', JStr (lit ''Please retry the analysis'')),
            (lit ''suggestion'', JStr (lit ''The AI provided analysis but in an unexpected format'')),
            (lit ''priority'', JStr (lit ''high'')),
            (lit ''category'', JStr (lit ''technical''))]]),
        (lit ''technical_assessment'', JObj
           [(lit ''level'', JStr (lit ''unknown'')),
            (lit ''skills_demonstrated'', JArr []),
            (lit ''knowledge_gaps'', JArr [JStr (lit ''Analysis incomplete'')]),
            (lit ''problem_solving_approach'', JStr (lit ''Unable to assess due to parsing error''))]),
        (lit ''communication_analysis'', JObj
           [(lit ''clarity'', JStr (lit ''unknown'')),
            (lit ''structure'', JStr (lit ''Unable to assess'')),
            (lit ''listening'', JStr (lit ''Unable to assess'')),
            (lit ''questioning'', JStr (lit ''Unable to assess''))]),
        (lit ''entities'', JObj
           [(lit ''technologies'', JArr []),
            (lit ''companies'', JArr []),
            (lit ''projects'', JArr []),
            (lit ''methodologies'', JArr [])]),
        (lit ''interview_flow'', JArr []),
        (lit ''overall_recommendation'', JObj
           [(lit ''decision'', JStr (lit ''maybe'')),
            (lit ''confidence'', JNum 5),
            (lit ''key_strengths'', JArr [JStr (lit ''Requires manual review'')]),
            (lit ''main_concerns'', JArr [JStr (lit ''Analysis parsing failed'')]),
            (lit ''cultural_fit'', JStr (lit ''Unable to assess'')),
            (lit ''next_steps'', JStr (lit ''Manual review recommended''))]),
        (lit ''interview_quality'', JObj
           [(lit ''questions_effectiveness'', JStr (lit ''Unable to assess due to technical issue'')),
            (lit ''areas_not_explored'', JArr []),
            (lit ''suggested_follow_ups'', JArr [])])]"

section \<open>Strings\<close>

text \<open>
  The code units that \<open>String.prototype.trim\<close> strips and that \<open>\s\<close> matches: the
  WhiteSpace and LineTerminator code points of ECMAScript.
\<close>

definition isWhiteSpace :: "nat \<Rightarrow> bool" where
  "isWhiteSpace c =
     (c \<in> {9, 10, 11, 12, 13, 32, 160, 5760, 8232, 8233, 8239, 8287, 12288, 65279}
      \<or> (8192 \<le> c \<and> c \<le> 8202))"

definition trim :: "jsstring \<Rightarrow> jsstring" where
  "trim s = rev (dropWhile isWhiteSpace (rev (dropWhile isWhiteSpace s)))"

text \<open>\<open>s.includes(sub)\<close> on strings\<close>

fun contains :: "jsstring \<Rightarrow> jsstring \<Rightarrow> bool" where
  "contains sub [] = (sub = [])"
| "contains sub (c # cs) = (take (length sub) (c # cs) = sub \<or> contains sub cs)"

text \<open>
  \<open>s.split(sep)\<close> for a non-empty string \<open>sep\<close>: the pieces between the occurrences of
  \<open>sep\<close>, found from left to right. After an occurrence the scan skips the rest of it.
\<close>

fun split_from :: "jsstring \<Rightarrow> jsstring \<Rightarrow> nat \<Rightarrow> jsstring \<Rightarrow> jsstring list" where
  "split_from sep acc skip [] = [rev acc]"
| "split_from sep acc (Suc k) (c # cs) = split_from sep acc k cs"
| "split_from sep acc 0 (c # cs) =
     (if take (length sep) (c # cs) = sep then rev acc # split_from sep [] (length sep - 1) cs
      else split_from sep (c # acc) 0 cs)"

definition split :: "jsstring \<Rightarrow> jsstring \<Rightarrow> jsstring list" where
  "split s sep = split_from sep [] 0 s"

text \<open>\<open>a[i]\<close> on the array that \<open>split\<close> returns; out of range it is \<open>undefined\<close>.\<close>

definition piece :: "jsstring list \<Rightarrow> nat \<Rightarrow> jsval" where
  "piece ps i = (if i < length ps then JStr (ps ! i) else JUndefined)"

text \<open>Methods of strings, called on an arbitrary value: a TypeError unless it is a string.\<close>

fun js_trim :: "jsval \<Rightarrow> js_error + jsstring" where
  "js_trim (JStr s) = Inr (trim s)"
| "js_trim v = Inl TypeError"

fun js_split :: "jsval \<Rightarrow> jsstring \<Rightarrow> js_error + jsstring list" where
  "js_split (JStr s) sep = Inr (split s sep)"
| "js_split v sep = Inl TypeError"

fun substring :: "jsval \<Rightarrow> nat \<Rightarrow> nat \<Rightarrow> js_error + jsval" where
  "substring (JStr s) b e = Inr (JStr (take (e - b) (drop b s)))"
| "substring v b e = Inl TypeError"

text \<open>
  \<open>s.match(/\{[\s\S]*\}/)\<close>: the star is greedy and the class matches every code unit, so
  the match runs from the first \<open>{\<close> to the last \<open>}\<close> behind it; \<open>null\<close> when there is
  no such pair. Code unit 123 is \<open>{\<close>, 125 is \<open>}\<close>.
\<close>

definition match_braces :: "jsstring \<Rightarrow> jsstring option" where
  "match_braces s =
     (case dropWhile (\<lambda>c. c \<noteq> 123) s of
        [] \<Rightarrow> None
      | c # cs \<Rightarrow>
          (case dropWhile (\<lambda>c. c \<noteq> 125) (rev cs) of
             [] \<Rightarrow> None
           | r \<Rightarrow> Some (c # rev r)))"

section \<open>JSON.parse\<close>

text \<open>
  The built-in parser, as ECMA-404 defines the grammar: a lexer that reads the text one
  code unit at a time, and a pushdown automaton on the tokens. \<open>None\<close> is a SyntaxError.
\<close>

datatype token =
    TLBrace | TRBrace | TLBrack | TRBrack | TColon | TComma
  | TString jsstring | TNumber rat | TTrue | TFalse | TNull

definition is_digit :: "nat \<Rightarrow> bool" where
  "is_digit c = (48 \<le> c \<and> c \<le> 57)"

definition hexval :: "nat \<Rightarrow> nat option" where
  "hexval c =
     (if 48 \<le> c \<and> c \<le> 57 then Some (c - 48)
      else if 97 \<le> c \<and> c \<le> 102 then Some (c - 87)
      else if 65 \<le> c \<and> c \<le> 70 then Some (c - 55)
      else None)"

text \<open>The character after a backslash, other than \<open>u\<close>: the code unit it stands for.\<close>

definition unescape :: "nat \<Rightarrow> nat option" where
  "unescape c =
     (if c = 34 \<or> c = 92 \<or> c = 47 then Some c
      else if c = 98 then Some 8
      else if c = 102 then Some 12
      else if c = 110 then Some 10
      else if c = 114 then Some 13
      else if c = 116 then Some 9
      else None)"

definition decimal :: "jsstring \<Rightarrow> nat" where
  "decimal ds = foldl (\<lambda>a c. 10 * a + (c - 48)) 0 ds"

text \<open>
  A number: \<open>-? (0 | [1-9][0-9]*) (. [0-9]+)? ([eE] [+-]? [0-9]+)?\<close>, read in three
  steps, each on what the step before left.
\<close>

definition number_exp :: "rat \<Rightarrow> jsstring \<Rightarrow> rat option" where
  "number_exp m s =
     (case s of
        [] \<Rightarrow> Some m
      | c # cs \<Rightarrow>
          if c \<noteq> 101 \<and> c \<noteq> 69 then None
          else
            (let neg = (case cs of [] \<Rightarrow> False | d # ds \<Rightarrow> d = 45);
                 es = (case cs of [] \<Rightarrow> [] | d # ds \<Rightarrow> if d = 43 \<or> d = 45 then ds else cs)
             in if es = [] \<or> \<not> list_all is_digit es then None
                else Some (if neg then m / 10 ^ decimal es else m * 10 ^ decimal es)))"

definition number_frac :: "rat \<Rightarrow> jsstring \<Rightarrow> rat option" where
  "number_frac m s =
     (case s of
        [] \<Rightarrow> Some m
      | c # cs \<Rightarrow>
          if c = 46 then
            (let fs = takeWhile is_digit cs
             in if fs = [] then None
                else number_exp (m + of_nat (decimal fs) / 10 ^ length fs) (dropWhile is_digit cs))
          else number_exp m s)"

definition number_of :: "jsstring \<Rightarrow> rat option" where
  "number_of s =
     (let neg = (case s of [] \<Rightarrow> False | c # cs \<Rightarrow> c = 45);
          s1 = (if neg then tl s else s);
          ds = takeWhile is_digit s1
      in if ds = [] \<or> (hd ds = 48 \<and> length ds > 1) then None
         else map_option (\<lambda>x. if neg then - x else x)
                (number_frac (of_nat (decimal ds)) (dropWhile is_digit s1)))"

text \<open>
  The lexer is in one of these modes: between tokens; inside a string (with the code units
  read so far, last first); after a backslash; inside \<open>\uXXXX\<close> (with the hex digits read
  so far); inside a run of number characters; inside a run of lower-case letters.
\<close>

datatype lexmode =
    Idle
  | InString jsstring
  | InEscape jsstring
  | InUnicode jsstring "nat list"
  | InNumber jsstring
  | InWord jsstring

definition is_numchar :: "nat \<Rightarrow> bool" where
  "is_numchar c = (is_digit c \<or> c = 45 \<or> c = 43 \<or> c = 46 \<or> c = 101 \<or> c = 69)"

definition is_lower :: "nat \<Rightarrow> bool" where
  "is_lower c = (97 \<le> c \<and> c \<le> 122)"

definition word_token :: "jsstring \<Rightarrow> token option" where
  "word_token w =
     (if w = lit ''true'' then Some TTrue
      else if w = lit ''false'' then Some TFalse
      else if w = lit ''null'' then Some TNull
      else None)"

text \<open>One code unit read between tokens: the tokens it completes and the next mode.\<close>

definition lex_idle :: "nat \<Rightarrow> (token list \<times> lexmode) option" where
  "lex_idle c =
     (if c = 32 \<or> c = 9 \<or> c = 10 \<or> c = 13 then Some ([], Idle)
      else if c = 123 then Some ([TLBrace], Idle)
      else if c = 125 then Some ([TRBrace], Idle)
      else if c = 91 then Some ([TLBrack], Idle)
      else if c = 93 then Some ([TRBrack], Idle)
      else if c = 58 then Some ([TColon], Idle)
      else if c = 44 then Some ([TComma], Idle)
      else if c = 34 then Some ([], InString [])
      else if is_numchar c then Some ([], InNumber [c])
      else if is_lower c then Some ([], InWord [c])
      else None)"

text \<open>The end of a run: the run's token, then the code unit that ended it.\<close>

definition lex_after :: "token option \<Rightarrow> nat \<Rightarrow> (token list \<times> lexmode) option" where
  "lex_after t c =
     (case t of
        None \<Rightarrow> None
      | Some tok \<Rightarrow> map_option (\<lambda>(ts, m). (tok # ts, m)) (lex_idle c))"

fun lex_step :: "lexmode \<Rightarrow> nat \<Rightarrow> (token list \<times> lexmode) option" where
  "lex_step Idle c = lex_idle c"
| "lex_step (InString acc) c =
     (if c = 34 then Some ([TString (rev acc)], Idle)
      else if c = 92 then Some ([], InEscape acc)
      else if c < 32 then None
      else Some ([], InString (c # acc)))"
| "lex_step (InEscape acc) c =
     (if c = 117 then Some ([], InUnicode acc [])
      else map_option (\<lambda>x. ([], InString (x # acc))) (unescape c))"
| "lex_step (InUnicode acc hs) c =
     (case hexval c of
        None \<Rightarrow> None
      | Some h \<Rightarrow>
          if length hs = 3 then Some ([], InString (foldl (\<lambda>a d. 16 * a + d) 0 (hs @ [h]) # acc))
          else Some ([], InUnicode acc (hs @ [h])))"
| "lex_step (InNumber acc) c =
     (if is_numchar c then Some ([], InNumber (c # acc))
      else lex_after (map_option TNumber (number_of (rev acc))) c)"
| "lex_step (InWord acc) c =
     (if is_lower c then Some ([], InWord (c # acc))
      else lex_after (word_token (rev acc)) c)"

text \<open>The end of the text: a run ends, an open string is an error.\<close>

fun lex_end :: "lexmode \<Rightarrow> token list option" where
  "lex_end Idle = Some []"
| "lex_end (InNumber acc) = map_option (\<lambda>x. [TNumber x]) (number_of (rev acc))"
| "lex_end (InWord acc) = map_option (\<lambda>t. [t]) (word_token (rev acc))"
| "lex_end m = None"

fun tokenize :: "lexmode \<Rightarrow> jsstring \<Rightarrow> token list option" where
  "tokenize m [] = lex_end m"
| "tokenize m (c # cs) =
     (case lex_step m c of
        None \<Rightarrow> None
      | Some (ts, m') \<Rightarrow> map_option (\<lambda>r. ts @ r) (tokenize m' cs))"

text \<open>
  The automaton. A frame is an array or an object that is open, with what it holds so
  far; an object's frame also has the key whose value is being read.
\<close>

datatype frame =
    InArr "jsval list"
  | InObj "(jsstring \<times> jsval) list" jsstring

datatype pstate =
    ExpValue "frame list"
  | ArrStart "frame list"
  | AfterElem "jsval list" "frame list"
  | ObjStart "frame list"
  | ExpKey "(jsstring \<times> jsval) list" "frame list"
  | ExpColon "(jsstring \<times> jsval) list" jsstring "frame list"
  | AfterMember "(jsstring \<times> jsval) list" "frame list"
  | Done jsval

text \<open>A key that is repeated keeps its place and takes the later value.\<close>

fun put :: "jsstring \<Rightarrow> jsval \<Rightarrow> (jsstring \<times> jsval) list \<Rightarrow> (jsstring \<times> jsval) list" where
  "put k v [] = [(k, v)]"
| "put k v ((k', v') # ms) = (if k' = k then (k, v) # ms else (k', v') # put k v ms)"

text \<open>A value is complete: it goes into the frame on top, or is the result.\<close>

fun reduce :: "jsval \<Rightarrow> frame list \<Rightarrow> pstate" where
  "reduce v [] = Done v"
| "reduce v (InArr es # st) = AfterElem (v # es) st"
| "reduce v (InObj ms k # st) = AfterMember (put k v ms) st"

fun begin_value :: "frame list \<Rightarrow> token \<Rightarrow> pstate option" where
  "begin_value st TLBrace = Some (ObjStart st)"
| "begin_value st TLBrack = Some (ArrStart st)"
| "begin_value st (TString s) = Some (reduce (JStr s) st)"
| "begin_value st (TNumber x) = Some (reduce (JNum x) st)"
| "begin_value st TTrue = Some (reduce (JBool True) st)"
| "begin_value st TFalse = Some (reduce (JBool False) st)"
| "begin_value st TNull = Some (reduce JNull st)"
| "begin_value st t = None"

fun pstep :: "pstate \<Rightarrow> token \<Rightarrow> pstate option" where
  "pstep (ExpValue st) t = begin_value st t"
| "pstep (ArrStart st) t =
     (if t = TRBrack then Some (reduce (JArr []) st) else begin_value (InArr [] # st) t)"
| "pstep (AfterElem es st) t =
     (if t = TComma then Some (ExpValue (InArr es # st))
      else if t = TRBrack then Some (reduce (JArr (rev es)) st)
      else None)"
| "pstep (ObjStart st) t =
     (case t of
        TRBrace \<Rightarrow> Some (reduce (JObj []) st)
      | TString k \<Rightarrow> Some (ExpColon [] k st)
      | _ \<Rightarrow> None)"
| "pstep (ExpKey ms st) t = (case t of TString k \<Rightarrow> Some (ExpColon ms k st) | _ \<Rightarrow> None)"
| "pstep (ExpColon ms k st) t = (if t = TColon then Some (ExpValue (InObj ms k # st)) else None)"
| "pstep (AfterMember ms st) t =
     (if t = TComma then Some (ExpKey ms st)
      else if t = TRBrace then Some (reduce (JObj ms) st)
      else None)"
| "pstep (Done v) t = None"

fun run :: "pstate \<Rightarrow> token list \<Rightarrow> pstate option" where
  "run p [] = Some p"
| "run p (t # ts) = (case pstep p t of None \<Rightarrow> None | Some p' \<Rightarrow> run p' ts)"

definition JSON_parse :: "jsstring \<Rightarrow> js_error + jsval" where
  "JSON_parse s =
     (case tokenize Idle s of
        None \<Rightarrow> Inl SyntaxError
      | Some ts \<Rightarrow> (case run (ExpValue []) ts of Some (Done v) \<Rightarrow> Inr v | _ \<Rightarrow> Inl SyntaxError))"

section \<open>response-parser.js: parseAndValidateResponse\<close>

text \<open>
  The object literal \<open>validated\<close>: each property reads a field of \<open>parsed\<close> and runs its
  validator, in the order of the source.
\<close>

definition validated :: "jsval \<Rightarrow> js_error + jsval" where
  "validated parsed =
     bindE (bindE (getProp parsed ''highlights'') validateHighlights) (\<lambda>highlights.
     bindE (bindE (getProp parsed ''improvements'') validateImprovements) (\<lambda>improvements.
     bindE (bindE (getProp parsed ''technical_assessment'') validateTechnicalAssessment)
       (\<lambda>technical_assessment.
     bindE (bindE (getProp parsed ''communication_analysis'') validateCommunicationAnalysis)
       (\<lambda>communication_analysis.
     bindE (bindE (getProp parsed ''entities'') validateEntities) (\<lambda>entities.
     bindE (bindE (getProp parsed ''interview_flow'') validateInterviewFlow) (\<lambda>interview_flow.
     bindE (bindE (getProp parsed ''overall_recommendation'') validateOverallRecommendation)
       (\<lambda>overall_recommendation.
     bindE (bindE (getProp parsed ''interview_quality'') validateInterviewQuality)
       (\<lambda>interview_quality.
     Inr (JObj
       [(lit ''highlights'', highlights),
        (lit ''improvements'', improvements),
        (lit ''technical_assessment'', technical_assessment),
        (lit ''communication_analysis'', communication_analysis),
        (lit ''entities'', entities),
        (lit ''interview_flow'', interview_flow),
        (lit ''overall_recommendation'', overall_recommendation),
        (lit ''interview_quality'', interview_quality)])))))))))"

text \<open>\<open>jsonMatch ? jsonMatch[0] : responseText\<close>\<close>

definition jsonText_of :: "jsstring \<Rightarrow> jsstring" where
  "jsonText_of responseText =
     (case match_braces responseText of Some m \<Rightarrow> m | None \<Rightarrow> responseText)"

text \<open>
  The \<open>try\<close> block. \<open>responseText.match\<close> throws a TypeError unless \<open>responseText\<close> is a
  string. Writing to the console is not modelled.
\<close>

definition parse_try :: "jsval \<Rightarrow> js_error + jsval" where
  "parse_try responseText =
     (case responseText of
        JStr s \<Rightarrow> bindE (JSON_parse (jsonText_of s)) validated
      | _ \<Rightarrow> Inl TypeError)"

text \<open>The \<open>catch\<close> block reads \<open>responseText.substring(0, 500)\<close> before it returns.\<close>

definition parseAndValidateResponse :: "jsval \<Rightarrow> jsval \<Rightarrow> js_error + jsval" where
  "parseAndValidateResponse responseText originalTranscript =
     (case parse_try responseText of
        Inr v \<Rightarrow> Inr v
      | Inl parseError \<Rightarrow>
          bindE (substring responseText 0 500)
            (\<lambda>raw. Inr (createFallbackAnalysis originalTranscript responseText)))"

section \<open>The class ResponseValidator\<close>

text \<open>
  Its validators and its fallback have the text of those in response-parser.js; the
  extraction of the JSON text differs: the text is trimmed and a fenced block is taken out.
\<close>

definition fenced :: "jsstring \<Rightarrow> jsstring \<Rightarrow> js_error + jsstring" where
  "fenced jsonText fence =
     bindE (js_split (piece (split jsonText fence) 1) (lit ''```''))
       (\<lambda>ps. js_trim (piece ps 0))"

definition ResponseValidator_jsonText :: "jsstring \<Rightarrow> js_error + jsstring" where
  "ResponseValidator_jsonText jsonText =
     (if contains (lit ''```json'') jsonText then fenced jsonText (lit ''```json'')
      else if contains (lit ''```'') jsonText then fenced jsonText (lit ''```'')
      else Inr jsonText)"

definition ResponseValidator_try :: "jsval \<Rightarrow> js_error + jsval" where
  "ResponseValidator_try responseText =
     bindE (js_trim responseText) (\<lambda>t.
     bindE (ResponseValidator_jsonText t) (\<lambda>jsonText.
     bindE (JSON_parse jsonText) validated))"

definition ResponseValidator_parseAndValidateResponse :: "jsval \<Rightarrow> jsval \<Rightarrow> js_error + jsval" where
  "ResponseValidator_parseAndValidateResponse responseText originalTranscript =
     (case ResponseValidator_try responseText of
        Inr v \<Rightarrow> Inr v
      | Inl parseError \<Rightarrow>
          bindE (substring responseText 0 500)
            (\<lambda>raw. Inr (createFallbackAnalysis originalTranscript responseText)))"

section \<open>demo-analysis.js: generateDemoAnalysis\<close>

definition to_lower :: "nat \<Rightarrow> nat" where
  "to_lower c = (if 65 \<le> c \<and> c \<le> 90 then c + 32 else c)"

text \<open>
  \<open>/p1|...|pn/gi.test(s)\<close> for lower-case ASCII words: one of them occurs in \<open>s\<close>, the
  case of ASCII letters ignored. The regular expression is a fresh object at each call,
  so its \<open>lastIndex\<close> is 0.
\<close>

definition test_ci :: "string list \<Rightarrow> jsstring \<Rightarrow> bool" where
  "test_ci ps s = list_ex (\<lambda>p. contains (lit p) (map to_lower s)) ps"

text \<open>
  \<open>s.split(/\s+/)\<close>: the pieces between the maximal runs of white space. The flag says
  whether the code unit before was white space.
\<close>

fun split_ws :: "jsstring \<Rightarrow> bool \<Rightarrow> jsstring \<Rightarrow> jsstring list" where
  "split_ws acc inrun [] = [rev acc]"
| "split_ws acc inrun (c # cs) =
     (if isWhiteSpace c then (if inrun then split_ws acc True cs else rev acc # split_ws [] True cs)
      else split_ws (c # acc) False cs)"

definition strs :: "string list \<Rightarrow> jsval" where
  "strs ss = JArr (map (\<lambda>s. JStr (lit s)) ss)"

text \<open>\<open>now\<close> is the value of \<open>new Date().toISOString()\<close>.\<close>

definition generateDemoAnalysis :: "jsstring \<Rightarrow> jsstring \<Rightarrow> jsval \<Rightarrow> jsval \<Rightarrow> jsval" where
  "generateDemoAnalysis now transcript mentor interviewType =
     (let hasTech = test_ci [''javascript'', ''react'', ''node'', ''python'', ''java'', ''system'',
                             ''design'', ''database'', ''api''] transcript;
          hasCompanies = test_ci [''google'', ''microsoft'', ''amazon'', ''apple'', ''meta'',
                                  ''netflix'', ''uber''] transcript;
          wordCount = length (split_ws [] False transcript);
          isLongInterview = wordCount > 800
      in JObj
       [(lit ''success'', JBool True),
        (lit ''analysis'', JObj
          [(lit ''highlights'', JArr
             [JObj
                [(lit ''text'', JStr (lit ''Demonstrated clear communication throughout the interview'')),
                 (lit ''category'', JStr (lit ''communication'')),
                 (lit ''confidence'', JNum (85 / 100)),
                 (lit ''reasoning'', JStr (lit ''Responses were well-structured and easy to follow''))],
              JObj
                [(lit ''text'', JStr (if hasTech
                    then lit ''Strong technical knowledge in modern web development''
                    else lit ''Good fundamental technical understanding'')),
                 (lit ''category'', JStr (lit ''technical_skill'')),
                 (lit ''confidence'', JNum (if hasTech then 9 / 10 else 7 / 10)),
                 (lit ''reasoning'',
                    JStr (lit ''Showed familiarity with relevant technologies and concepts''))],
              JObj
                [(lit ''text'', JStr (lit ''Proactive about asking clarifying questions'')),
                 (lit ''category'', JStr (lit ''problem_solving'')),
                 (lit ''confidence'', JNum (8 / 10)),
                 (lit ''reasoning'',
                    JStr (lit ''Good practice for understanding requirements before solving''))]]),
           (lit ''improvements'', JArr
             [JObj
                [(lit ''text'',
                    JStr (lit ''Could provide more specific examples with quantified impact'')),
                 (lit ''suggestion'', JStr (lit
                    ''When describing achievements, include metrics like performance improvements or user impact'')),
                 (lit ''priority'', JStr (lit ''medium'')),
                 (lit ''category'', JStr (lit ''communication''))],
              JObj
                [(lit ''text'', JStr (lit ''Opportunity to discuss system design considerations'')),
                 (lit ''suggestion'', JStr (lit
                    ''Elaborate on scalability, reliability, and trade-offs in technical solutions'')),
                 (lit ''priority'', JStr (lit ''medium'')),
                 (lit ''category'', JStr (lit ''technical''))]]),
           (lit ''technical_assessment'', JObj
             [(lit ''level'', JStr (if hasTech then (if isLongInterview then lit ''senior'' else lit ''mid'')
                                    else lit ''junior'')),
              (lit ''skills_demonstrated'',
                 (if hasTech
                  then strs [''JavaScript'', ''React'', ''Node.js'', ''System Design'', ''Problem Solving'']
                  else strs [''Programming Fundamentals'', ''Logical Thinking''])),
              (lit ''knowledge_gaps'',
                 (if isLongInterview then JArr []
                  else strs [''Advanced system architecture'', ''Performance optimization''])),
              (lit ''problem_solving_approach'',
                 JStr (lit ''Systematic approach with good questioning technique''))]),
           (lit ''communication_analysis'', JObj
             [(lit ''clarity'', JStr (lit ''good'')),
              (lit ''structure'', JStr (lit ''Well-organized responses with clear examples'')),
              (lit ''listening'',
                 JStr (lit ''Good comprehension and appropriate follow-up questions'')),
              (lit ''questioning'',
                 JStr (lit ''Asked relevant questions about requirements and constraints''))]),
           (lit ''entities'', JObj
             [(lit ''technologies'',
                 (if hasTech then strs [''JavaScript'', ''React'', ''Node.js'', ''Database'', ''API'']
                  else strs [''Programming''])),
              (lit ''companies'',
                 (if hasCompanies then strs [''Google'', ''Microsoft'', ''Amazon'']
                  else strs [''Tech Company''])),
              (lit ''projects'', strs [''Web Application'', ''System Design'']),
              (lit ''methodologies'', strs [''Agile'', ''Problem-Solving Process''])]),
           (lit ''interview_flow'', JArr
             [JObj
                [(lit ''section'', JStr (lit ''introduction'')),
                 (lit ''summary'', JStr (lit ''Background and experience discussion'')),
                 (lit ''key_moments'', strs [''Professional background'', ''Key experiences'']),
                 (lit ''duration_estimate'', JStr (lit ''8-10 minutes''))],
              JObj
                [(lit ''section'', JStr (lit ''technical_questions'')),
                 (lit ''summary'', JStr (lit ''Technical problem-solving and system design'')),
                 (lit ''key_moments'',
                    strs [''Approach explanation'', ''Technology choices'', ''Trade-off considerations'']),
                 (lit ''duration_estimate'', JStr (lit ''15-20 minutes''))],
              JObj
                [(lit ''section'', JStr (lit ''candidate_questions'')),
                 (lit ''summary'', JStr (lit ''Questions about role and team'')),
                 (lit ''key_moments'', strs [''Interest in team dynamics'', ''Growth opportunities'']),
                 (lit ''duration_estimate'', JStr (lit ''5-8 minutes''))]]),
           (lit ''overall_recommendation'', JObj
             [(lit ''decision'', JStr (if hasTech then lit ''hire'' else lit ''maybe'')),
              (lit ''confidence'', JNum (if hasTech then 8 else 6)),
              (lit ''key_strengths'', JArr
                 [JStr (lit ''Clear communication skills''),
                  JStr (if hasTech then lit ''Strong technical foundation''
                        else lit ''Good learning potential''),
                  JStr (lit ''Collaborative approach'')]),
              (lit ''main_concerns'',
                 (if isLongInterview then JArr []
                  else strs [''Limited experience with complex systems''])),
              (lit ''cultural_fit'',
                 JStr (lit ''Positive indicators for team collaboration and growth mindset'')),
              (lit ''next_steps'', JStr (if hasTech
                 then lit ''Technical deep-dive or system design round''
                 else lit ''Pair programming or technical assessment''))]),
           (lit ''interview_quality'', JObj
             [(lit ''questions_effectiveness'',
                 JStr (lit ''Good coverage of technical and behavioral aspects'')),
              (lit ''areas_not_explored'',
                 (if isLongInterview then JArr []
                  else strs [''Leadership experience'', ''Conflict resolution''])),
              (lit ''suggested_follow_ups'',
                 strs [''System design deep-dive'', ''Code review exercise'',
                       ''Team collaboration scenarios''])])]),
        (lit ''metadata'', JObj
          [(lit ''model'', JStr (lit ''Demo Mode - Enhanced Analysis'')),
           (lit ''timestamp'', JStr now),
           (lit ''transcript_length'', JNum (of_nat (length transcript))),
           (lit ''demo_mode'', JBool True),
           (lit ''analysis_type'', JStr (lit ''fallback''))])])"

section \<open>The upstream and the trace of a call\<close>

text \<open>
  What a call of \<open>fetch\<close> meets: the promise is rejected (a connection error), or there is
  a response with its status and its body; \<open>None\<close> is a body that cannot be read.
  The request itself (the prompt and the headers) has no influence in this model, and
  building the prompt cannot throw.
\<close>

record response =
  status :: nat
  body :: "jsstring option"

datatype fetch_outcome = Rejected | Response response

definition ok :: "response \<Rightarrow> bool" where
  "ok r = (200 \<le> status r \<and> status r \<le> 299)"

text \<open>\<open>response.text()\<close> and \<open>response.json()\<close>\<close>

definition text_of :: "response \<Rightarrow> js_error + jsstring" where
  "text_of r = (case body r of None \<Rightarrow> Inl TypeError | Some b \<Rightarrow> Inr b)"

definition json_of :: "response \<Rightarrow> js_error + jsval" where
  "json_of r = bindE (text_of r) JSON_parse"

text \<open>
  The environment of a call: the value of the variable \<open>OPENROUTER_API_KEY\<close> (\<open>None\<close>
  when it is not set), what the n-th call of \<open>fetch\<close> meets (the first is number 0), the
  time that \<open>new Date().toISOString()\<close> gives after n fetches, and the milliseconds
  that the n-th attempt takes.
\<close>

record env =
  api_key :: "jsstring option"
  upstream :: "nat \<Rightarrow> fetch_outcome"
  clock :: "nat \<Rightarrow> jsstring"
  elapsed :: "nat \<Rightarrow> rat"

text \<open>What a call does to the outside, in the order of time.\<close>

datatype event = Fetch | Sleep nat

definition fetches :: "event list \<Rightarrow> nat" where
  "fetches tr = length (filter (\<lambda>ev. ev = Fetch) tr)"

definition MODEL :: jsstring where
  "MODEL = lit ''deepseek/deepseek-r1-distill-llama-70b:free''"

definition MAX_RETRIES :: nat where
  "MAX_RETRIES = 3"

definition RETRY_DELAY :: nat where
  "RETRY_DELAY = 1000"

text \<open>A number in a template literal: its decimal digits.\<close>

function show_nat :: "nat \<Rightarrow> jsstring" where
  "show_nat n = (if n < 10 then [48 + n] else show_nat (n div 10) @ [48 + n mod 10])"
  by pat_completeness auto
termination
  by (relation "measure id") auto

declare show_nat.simps [simp del]

text \<open>
  \<open>v[i]\<close>: an element of an array, a code unit of a string, the property of an object whose
  name is the digits of \<open>i\<close>; a TypeError on \<open>undefined\<close> and \<open>null\<close>. \<open>v?.[i]\<close> is
  \<open>undefined\<close> on those two.
\<close>

fun getIndex :: "jsval \<Rightarrow> nat \<Rightarrow> js_error + jsval" where
  "getIndex JUndefined i = Inl TypeError"
| "getIndex JNull i = Inl TypeError"
| "getIndex (JArr xs) i = Inr (if i < length xs then xs ! i else JUndefined)"
| "getIndex (JStr s) i = Inr (if i < length s then JStr [s ! i] else JUndefined)"
| "getIndex (JObj kvs) i =
     Inr (case map_of kvs (show_nat i) of None \<Rightarrow> JUndefined | Some v \<Rightarrow> v)"
| "getIndex (JBool b) i = Inr JUndefined"
| "getIndex (JNum x) i = Inr JUndefined"

definition optIndex :: "jsval \<Rightarrow> nat \<Rightarrow> jsval" where
  "optIndex v i = (case getIndex v i of Inl err \<Rightarrow> JUndefined | Inr x \<Rightarrow> x)"

section \<open>deepseek-enhanced.js\<close>

text \<open>
  \<open>performAnalysis\<close>: one call of \<open>fetch\<close>, then the checks of the response, in the order
  of the source. It returns what it returns or throws, and the trace with the fetch added.
\<close>

definition performAnalysis ::
  "env \<Rightarrow> jsstring \<Rightarrow> nat \<Rightarrow> jsval \<Rightarrow> jsval \<Rightarrow> event list \<Rightarrow> (js_error + jsval) \<times> event list" where
  "performAnalysis e transcript attempt mentor interviewType tr =
     (let n = fetches tr in
      (case upstream e n of
         Rejected \<Rightarrow> Inl TypeError
       | Response r \<Rightarrow>
           if \<not> ok r then
             bindE (text_of r) (\<lambda>errorText.
               Inl (Error (lit ''OpenRouter API error '' @ show_nat (status r) @ lit '': '' @ errorText)))
           else
             bindE (json_of r) (\<lambda>data.
             bindE (getProp data ''choices'') (\<lambda>choices.
             if \<not> truthy choices then Inl (Error (lit ''Invalid response structure from OpenRouter API''))
             else
               bindE (getIndex choices 0) (\<lambda>choice.
               if \<not> truthy choice then Inl (Error (lit ''Invalid response structure from OpenRouter API''))
               else
                 bindE (getProp choice ''message'') (\<lambda>message.
                 if \<not> truthy message then Inl (Error (lit ''Invalid response structure from OpenRouter API''))
                 else
                   bindE (getProp message ''content'') (\<lambda>content.
                   bindE (js_trim content) (\<lambda>analysisText.
                   if analysisText = [] then Inl (Error (lit ''Empty response content from OpenRouter API''))
                   else
                     bindE (ResponseValidator_parseAndValidateResponse (JStr analysisText) (JStr transcript))
                       (\<lambda>analysis.
                     Inr (JObj
                       [(lit ''success'', JBool True),
                        (lit ''analysis'', analysis),
                        (lit ''metadata'', JObj
                          [(lit ''model'', JStr MODEL),
                           (lit ''timestamp'', JStr (clock e (Suc n))),
                           (lit ''processing_time_ms'', JNum (elapsed e n)),
                           (lit ''attempt_number'', JNum (of_nat attempt)),
                           (lit ''transcript_length'', JNum (of_nat (length transcript))),
                           (lit ''tokens_used'',
                              js_or (optProp (optProp data ''usage'') ''total_tokens'')
                                (JStr (lit ''unknown'')))])]))))))))),
      tr @ [Fetch])"

text \<open>
  The loop of \<open>analyzeTranscript\<close>, from \<open>attempt\<close> on. The two files that have the loop
  differ in \<open>performAnalysis\<close> only, which is the parameter \<open>perform\<close>. A \<open>return\<close> ends
  the loop; behind the loop the function returns \<open>undefined\<close>.
\<close>

function analyze_loop ::
  "(env \<Rightarrow> jsstring \<Rightarrow> nat \<Rightarrow> jsval \<Rightarrow> jsval \<Rightarrow> event list \<Rightarrow> (js_error + jsval) \<times> event list) \<Rightarrow>
   env \<Rightarrow> jsstring \<Rightarrow> jsval \<Rightarrow> jsval \<Rightarrow> nat \<Rightarrow> event list \<Rightarrow> (js_error + jsval) \<times> event list" where
  "analyze_loop perform e transcript mentor interviewType attempt tr =
     (if attempt \<le> MAX_RETRIES then
        (case perform e transcript attempt mentor interviewType tr of
           (Inr result, tr') \<Rightarrow> (Inr result, tr')
         | (Inl error, tr') \<Rightarrow>
             if attempt = MAX_RETRIES
             then (Inr (generateDemoAnalysis (clock e (fetches tr')) transcript mentor interviewType), tr')
             else analyze_loop perform e transcript mentor interviewType (attempt + 1)
                    (tr' @ [Sleep (RETRY_DELAY * attempt)]))
      else (Inr JUndefined, tr))"
  by pat_completeness auto
termination
  by (relation "measure (\<lambda>(perform, e, transcript, mentor, interviewType, attempt, tr).
        Suc MAX_RETRIES - attempt)") auto

declare analyze_loop.simps [simp del]

text \<open>\<open>!process.env.OPENROUTER_API_KEY\<close>: the variable is not set, or is the empty string.\<close>

definition no_key :: "jsstring option \<Rightarrow> bool" where
  "no_key k = (case k of None \<Rightarrow> True | Some s \<Rightarrow> s = [])"

definition analyzeTranscript ::
  "env \<Rightarrow> jsstring \<Rightarrow> jsval \<Rightarrow> jsval \<Rightarrow> (js_error + jsval) \<times> event list" where
  "analyzeTranscript e transcript mentor interviewType =
     (if transcript = [] \<or> length (trim transcript) < 50
      then (Inl (Error (lit ''Transcript too short or empty for meaningful analysis'')), [])
      else if no_key (api_key e) \<or> api_key e = Some (lit ''your_openrouter_api_key_here'')
      then (Inr (generateDemoAnalysis (clock e 0) transcript mentor interviewType), [])
      else analyze_loop performAnalysis e transcript mentor interviewType 1 [])"

section \<open>ai-service.js\<close>

text \<open>
  The second orchestrator. Its \<open>getDemoAnalysis\<close> has the text of \<open>generateDemoAnalysis\<close>,
  and it calls \<open>parseAndValidateResponse\<close> of response-parser.js.
\<close>

definition getDemoAnalysis :: "jsstring \<Rightarrow> jsstring \<Rightarrow> jsval \<Rightarrow> jsval \<Rightarrow> jsval" where
  "getDemoAnalysis = generateDemoAnalysis"

definition performAnalysis_ai ::
  "env \<Rightarrow> jsstring \<Rightarrow> nat \<Rightarrow> jsval \<Rightarrow> jsval \<Rightarrow> event list \<Rightarrow> (js_error + jsval) \<times> event list" where
  "performAnalysis_ai e transcript attemptNumber mentor interviewType tr =
     (let n = fetches tr in
      (case upstream e n of
         Rejected \<Rightarrow> Inl TypeError
       | Response r \<Rightarrow>
           if \<not> ok r then
             bindE (text_of r) (\<lambda>errorText.
               Inl (Error (lit ''OpenRouter API error '' @ show_nat (status r) @ lit '': '' @ errorText)))
           else
             bindE (json_of r) (\<lambda>data.
             bindE (getProp data ''choices'') (\<lambda>choices.
             let analysisText = optProp (optProp (optIndex choices 0) ''message'') ''content''
             in if \<not> truthy analysisText
                then Inl (Error (lit ''No analysis content received from DeepSeek''))
                else
                  bindE (parseAndValidateResponse analysisText (JStr transcript)) (\<lambda>analysis.
                  Inr (JObj
                    [(lit ''success'', JBool True),
                     (lit ''analysis'', analysis),
                     (lit ''metadata'', JObj
                       [(lit ''model'', JStr MODEL),
                        (lit ''timestamp'', JStr (clock e (Suc n))),
                        (lit ''transcript_length'', JNum (of_nat (length transcript))),
                        (lit ''attempt_number'', JNum (of_nat attemptNumber)),
                        (lit ''token_usage'', js_or (optProp data ''usage'') JNull)])]))))),
      tr @ [Fetch])"

definition analyzeTranscript_ai ::
  "env \<Rightarrow> jsstring \<Rightarrow> jsval \<Rightarrow> jsval \<Rightarrow> (js_error + jsval) \<times> event list" where
  "analyzeTranscript_ai e transcript mentor interviewType =
     (if transcript = [] \<or> length (trim transcript) < 50
      then (Inl (Error (lit ''Transcript too short or empty for meaningful analysis'')), [])
      else if no_key (api_key e) \<or> api_key e = Some (lit ''your_openrouter_api_key_here'')
      then (Inr (getDemoAnalysis (clock e 0) transcript mentor interviewType), [])
      else analyze_loop performAnalysis_ai e transcript mentor interviewType 1 [])"

section \<open>Notions of the statements\<close>

text \<open>The value of a capped array field: the first \<open>n\<close> elements, or the default.\<close>

definition cap :: "nat \<Rightarrow> jsval \<Rightarrow> jsval \<Rightarrow> jsval" where
  "cap n d v = (case v of JArr xs \<Rightarrow> JArr (take n xs) | _ \<Rightarrow> d)"

text \<open>The elements of an array.\<close>

definition elements :: "jsval \<Rightarrow> jsval list" where
  "elements v = (case v of JArr xs \<Rightarrow> xs | _ \<Rightarrow> [])"

text \<open>The categories of a highlight and the interval of its confidence, as the data model names them.\<close>

definition highlight_categories :: "string list" where
  "highlight_categories =
     [''communication'', ''technical_skill'', ''problem_solving'', ''leadership'', ''general'']"

definition unit_interval :: "jsval \<Rightarrow> bool" where
  "unit_interval v = (case v of JNum x \<Rightarrow> 0 \<le> x \<and> x \<le> 1 | _ \<Rightarrow> False)"

text \<open>What the five validators of object fields return.\<close>

definition technical_assessment_of :: "jsval \<Rightarrow> jsval" where
  "technical_assessment_of tech = JObj
       [(lit ''level'',
           if js_includes [''junior'', ''mid'', ''senior'', ''staff'', ''principal''] (optProp tech ''level'')
           then optProp tech ''level'' else JStr (lit ''mid'')),
        (lit ''skills_demonstrated'', cap 8 (JArr []) (optProp tech ''skills_demonstrated'')),
        (lit ''knowledge_gaps'', cap 4 (JArr []) (optProp tech ''knowledge_gaps'')),
        (lit ''problem_solving_approach'',
           js_or (optProp tech ''problem_solving_approach'')
             (JStr (lit ''Structured problem-solving approach observed'')))]"

definition communication_analysis_of :: "jsval \<Rightarrow> jsval" where
  "communication_analysis_of comm = JObj
       [(lit ''clarity'',
           if js_includes [''poor'', ''fair'', ''good'', ''excellent''] (optProp comm ''clarity'')
           then optProp comm ''clarity'' else JStr (lit ''good'')),
        (lit ''structure'', js_or (optProp comm ''structure'') (JStr (lit ''Well-organized responses''))),
        (lit ''listening'',
           js_or (optProp comm ''listening'') (JStr (lit ''Good comprehension of questions''))),
        (lit ''questioning'',
           js_or (optProp comm ''questioning'') (JStr (lit ''Asked relevant follow-up questions'')))]"

definition entities_of :: "jsval \<Rightarrow> jsval" where
  "entities_of entities = JObj
       [(lit ''technologies'', cap 10 (JArr []) (optProp entities ''technologies'')),
        (lit ''companies'', cap 5 (JArr []) (optProp entities ''companies'')),
        (lit ''projects'', cap 5 (JArr []) (optProp entities ''projects'')),
        (lit ''methodologies'', cap 5 (JArr []) (optProp entities ''methodologies''))]"

definition overall_recommendation_of :: "jsval \<Rightarrow> jsval" where
  "overall_recommendation_of rec = JObj
       [(lit ''decision'',
           if js_includes [''strong_hire'', ''hire'', ''maybe'', ''no_hire''] (optProp rec ''decision'')
           then optProp rec ''decision'' else JStr (lit ''maybe'')),
        (lit ''confidence'',
           if isNumber (optProp rec ''confidence'') then clamp 1 10 (optProp rec ''confidence'')
           else JNum 7),
        (lit ''key_strengths'',
           cap 4 (JArr [JStr (lit ''Analysis completed'')]) (optProp rec ''key_strengths'')),
        (lit ''main_concerns'', cap 3 (JArr []) (optProp rec ''main_concerns'')),
        (lit ''cultural_fit'',
           js_or (optProp rec ''cultural_fit'')
             (JStr (lit ''Positive indicators for team collaboration''))),
        (lit ''next_steps'',
           js_or (optProp rec ''next_steps'')
             (JStr (lit ''Recommend technical deep-dive interview'')))]"

definition interview_quality_of :: "jsval \<Rightarrow> jsval" where
  "interview_quality_of quality = JObj
       [(lit ''questions_effectiveness'',
           js_or (optProp quality ''questions_effectiveness'')
             (JStr (lit ''Standard interview questions covered relevant topics''))),
        (lit ''areas_not_explored'', cap 3 (JArr []) (optProp quality ''areas_not_explored'')),
        (lit ''suggested_follow_ups'', cap 4 (JArr []) (optProp quality ''suggested_follow_ups''))]"

text \<open>An item that the arrow functions can read: neither \<open>null\<close> nor \<open>undefined\<close>.\<close>

definition present :: "jsval \<Rightarrow> bool" where
  "present v = (v \<noteq> JNull \<and> v \<noteq> JUndefined)"

text \<open>
  What the \<open>try\<close> block reads of the parsed value: \<open>parsed.highlights\<close> throws when
  \<open>parsed\<close> is \<open>null\<close>, and an arrow function throws on an item that is \<open>null\<close>; the
  arrow functions run on the first 6, 4 and 8 items.
\<close>

definition no_null_read :: "jsval \<Rightarrow> bool" where
  "no_null_read parsed =
     (present parsed
      \<and> list_all present (take 6 (elements (optProp parsed ''highlights'')))
      \<and> list_all present (take 4 (elements (optProp parsed ''improvements'')))
      \<and> list_all present (take 8 (elements (optProp parsed ''interview_flow''))))"

text \<open>
  The analysis that \<open>parseAndValidateResponse\<close> returns for a text, and the value that
  \<open>JSON.parse\<close> returns for the JSON text taken from it.
\<close>

definition normalized :: "jsstring \<Rightarrow> jsval \<Rightarrow> jsval" where
  "normalized s t = projr (parseAndValidateResponse (JStr s) t)"

definition parsed_of :: "jsstring \<Rightarrow> jsval" where
  "parsed_of s = projr (JSON_parse (jsonText_of s))"

text \<open>
  The shape of a normalized analysis. An object has exactly the keys of the schema, in the
  order of the source; a list is an array within its cap; a field that the validators
  default with \<open>||\<close> is truthy. The values of \<open>level\<close> and \<open>clarity\<close> are parameters:
  the validators and the fallback differ in them.
\<close>

definition has_keys :: "jsval \<Rightarrow> string list \<Rightarrow> bool" where
  "has_keys v ks = (case v of JObj kvs \<Rightarrow> map fst kvs = map lit ks | _ \<Rightarrow> False)"

definition array_of :: "nat \<Rightarrow> (jsval \<Rightarrow> bool) \<Rightarrow> jsval \<Rightarrow> bool" where
  "array_of n P v = (case v of JArr xs \<Rightarrow> length xs \<le> n \<and> list_all P xs | _ \<Rightarrow> False)"

definition is_string :: "jsval \<Rightarrow> bool" where
  "is_string v = (case v of JStr s \<Rightarrow> True | _ \<Rightarrow> False)"

definition highlight_shape :: "jsval \<Rightarrow> bool" where
  "highlight_shape h =
     (has_keys h [''text'', ''category'', ''confidence'', ''reasoning'']
      \<and> truthy (optProp h ''text'') \<and> truthy (optProp h ''category'')
      \<and> isNumber (optProp h ''confidence'') \<and> truthy (optProp h ''reasoning''))"

definition improvement_shape :: "jsval \<Rightarrow> bool" where
  "improvement_shape i =
     (has_keys i [''text'', ''suggestion'', ''priority'', ''category'']
      \<and> truthy (optProp i ''text'') \<and> truthy (optProp i ''suggestion'')
      \<and> js_includes [''high'', ''medium'', ''low''] (optProp i ''priority'')
      \<and> truthy (optProp i ''category''))"

definition flow_shape :: "jsval \<Rightarrow> bool" where
  "flow_shape f =
     (has_keys f [''section'', ''summary'', ''key_moments'', ''duration_estimate'']
      \<and> truthy (optProp f ''section'') \<and> truthy (optProp f ''summary'')
      \<and> array_of 3 (\<lambda>v. True) (optProp f ''key_moments'')
      \<and> truthy (optProp f ''duration_estimate''))"

definition technical_shape :: "string list \<Rightarrow> jsval \<Rightarrow> bool" where
  "technical_shape levels t =
     (has_keys t [''level'', ''skills_demonstrated'', ''knowledge_gaps'', ''problem_solving_approach'']
      \<and> js_includes levels (optProp t ''level'')
      \<and> array_of 8 (\<lambda>v. True) (optProp t ''skills_demonstrated'')
      \<and> array_of 4 (\<lambda>v. True) (optProp t ''knowledge_gaps'')
      \<and> truthy (optProp t ''problem_solving_approach''))"

definition communication_shape :: "string list \<Rightarrow> jsval \<Rightarrow> bool" where
  "communication_shape clarities c =
     (has_keys c [''clarity'', ''structure'', ''listening'', ''questioning'']
      \<and> js_includes clarities (optProp c ''clarity'')
      \<and> truthy (optProp c ''structure'') \<and> truthy (optProp c ''listening'')
      \<and> truthy (optProp c ''questioning''))"

definition entities_shape :: "jsval \<Rightarrow> bool" where
  "entities_shape e =
     (has_keys e [''technologies'', ''companies'', ''projects'', ''methodologies'']
      \<and> array_of 10 (\<lambda>v. True) (optProp e ''technologies'')
      \<and> array_of 5 (\<lambda>v. True) (optProp e ''companies'')
      \<and> array_of 5 (\<lambda>v. True) (optProp e ''projects'')
      \<and> array_of 5 (\<lambda>v. True) (optProp e ''methodologies''))"

definition recommendation_shape :: "jsval \<Rightarrow> bool" where
  "recommendation_shape r =
     (has_keys r [''decision'', ''confidence'', ''key_strengths'', ''main_concerns'', ''cultural_fit'',
                  ''next_steps'']
      \<and> js_includes [''strong_hire'', ''hire'', ''maybe'', ''no_hire''] (optProp r ''decision'')
      \<and> (case optProp r ''confidence'' of JNum x \<Rightarrow> 1 \<le> x \<and> x \<le> 10 | _ \<Rightarrow> False)
      \<and> array_of 4 (\<lambda>v. True) (optProp r ''key_strengths'')
      \<and> array_of 3 (\<lambda>v. True) (optProp r ''main_concerns'')
      \<and> truthy (optProp r ''cultural_fit'') \<and> truthy (optProp r ''next_steps''))"

definition quality_shape :: "jsval \<Rightarrow> bool" where
  "quality_shape q =
     (has_keys q [''questions_effectiveness'', ''areas_not_explored'', ''suggested_follow_ups'']
      \<and> truthy (optProp q ''questions_effectiveness'')
      \<and> array_of 3 (\<lambda>v. True) (optProp q ''areas_not_explored'')
      \<and> array_of 4 (\<lambda>v. True) (optProp q ''suggested_follow_ups''))"

definition top_level_keys :: "string list" where
  "top_level_keys =
     [''highlights'', ''improvements'', ''technical_assessment'', ''communication_analysis'',
      ''entities'', ''interview_flow'', ''overall_recommendation'', ''interview_quality'']"

definition analysis_shape :: "string list \<Rightarrow> string list \<Rightarrow> jsval \<Rightarrow> bool" where
  "analysis_shape levels clarities r =
     (has_keys r top_level_keys
      \<and> array_of 6 highlight_shape (optProp r ''highlights'')
      \<and> array_of 4 improvement_shape (optProp r ''improvements'')
      \<and> technical_shape levels (optProp r ''technical_assessment'')
      \<and> communication_shape clarities (optProp r ''communication_analysis'')
      \<and> entities_shape (optProp r ''entities'')
      \<and> array_of 8 flow_shape (optProp r ''interview_flow'')
      \<and> recommendation_shape (optProp r ''overall_recommendation'')
      \<and> quality_shape (optProp r ''interview_quality''))"

definition level_values :: "string list" where
  "level_values = [''junior'', ''mid'', ''senior'', ''staff'', ''principal'']"

definition clarity_values :: "string list" where
  "clarity_values = [''poor'', ''fair'', ''good'', ''excellent'']"

text \<open>The code units of a text that are not white space.\<close>

definition non_whitespace :: "jsstring \<Rightarrow> jsstring" where
  "non_whitespace s = filter (\<lambda>c. \<not> isWhiteSpace c) s"

text \<open>A failure of the transport: a connection error, or a status that is not 2xx.\<close>

definition transport_failure :: "fetch_outcome \<Rightarrow> bool" where
  "transport_failure out = (case out of Rejected \<Rightarrow> True | Response r \<Rightarrow> \<not> ok r)"

text \<open>
  The text that the upstream returns: the status is 2xx, the body is JSON, and
  \<open>choices[0].message.content\<close> of it is a string.
\<close>

definition returned_text :: "fetch_outcome \<Rightarrow> jsstring option" where
  "returned_text out =
     (case out of
        Rejected \<Rightarrow> None
      | Response r \<Rightarrow>
          if \<not> ok r then None
          else
            (case json_of r of
               Inl err \<Rightarrow> None
             | Inr data \<Rightarrow>
                 (case optProp (optProp (optIndex (optProp data ''choices'') 0) ''message'') ''content'' of
                    JStr s \<Rightarrow> Some s
                  | _ \<Rightarrow> None)))"

text \<open>The message of the error that \<open>analyzeTranscript\<close> throws.\<close>

definition too_short :: jsstring where
  "too_short = lit ''Transcript too short or empty for meaningful analysis''"

text \<open>
  Environments and transcripts of the examples: no key and no upstream; a key, and an
  upstream that refuses the connection or answers 503; a transcript of 26 letters with a
  space between them; a transcript of 72 code units.
\<close>

definition offline :: env where
  "offline =
     \<lparr>api_key = None,
      upstream = (\<lambda>n. Rejected),
      clock = (\<lambda>n. lit ''2025-01-01T00:00:00.000Z''),
      elapsed = (\<lambda>n. 0)\<rparr>"

definition unreachable :: env where
  "unreachable =
     \<lparr>api_key = Some (lit ''a-configured-key''),
      upstream = (\<lambda>n. if n = 1 then Response \<lparr>status = 503, body = Some (lit ''Service Unavailable'')\<rparr>
                      else Rejected),
      clock = (\<lambda>n. lit ''2025-01-01T00:00:00.000Z''),
      elapsed = (\<lambda>n. 0)\<rparr>"

definition spaced :: jsstring where
  "spaced = lit ''a a a a a a a a a a a a a a a a a a a a a a a a a a''"

definition interview :: jsstring where
  "interview = lit ''I built a React dashboard at Google and then led the database migration.''"

text \<open>
  More environments of the examples: an upstream that answers every call with a chat
  completion whose content is a sentence and no JSON; and one whose first answer has the
  status 200 and no choice.
\<close>

definition chat_completion :: "jsstring \<Rightarrow> fetch_outcome" where
  \<open>chat_completion content =
     Response \<lparr>status = 200,
               body = Some (lit ''{"choices":[{"message":{"content":"'' @ content @ lit ''"}}]}'')\<rparr>\<close>

definition prose :: jsstring where
  "prose = lit ''Sorry, I cannot help.''"

definition talkative :: env where
  "talkative =
     \<lparr>api_key = Some (lit ''a-configured-key''),
      upstream = (\<lambda>n. chat_completion prose),
      clock = (\<lambda>n. lit ''2025-01-01T00:00:00.000Z''),
      elapsed = (\<lambda>n. 0)\<rparr>"

definition no_choices :: env where
  \<open>no_choices =
     \<lparr>api_key = Some (lit ''a-configured-key''),
      upstream = (\<lambda>n. if n = 0 then Response \<lparr>status = 200, body = Some (lit ''{"choices":[]}'')\<rparr>
                      else chat_completion prose),
      clock = (\<lambda>n. lit ''2025-01-01T00:00:00.000Z''),
      elapsed = (\<lambda>n. 0)\<rparr>\<close>

text \<open>
  Responses of the examples: twenty highlights with the texts a to t; twenty highlights
  that are numbers, and an improvement that is \<open>null\<close>; a highlight with a category and
  a confidence of its own, and an improvement that is \<open>null\<close>; a highlight with a category
  of the data model and a confidence in the unit interval.
\<close>

definition twenty_highlights :: jsstring where
  \<open>twenty_highlights = lit
     ''{"highlights":[{"text":"a"},{"text":"b"},{"text":"c"},{"text":"d"},{"text":"e"},{"text":"f"},{"text":"g"},{"text":"h"},{"text":"i"},{"text":"j"},{"text":"k"},{"text":"l"},{"text":"m"},{"text":"n"},{"text":"o"},{"text":"p"},{"text":"q"},{"text":"r"},{"text":"s"},{"text":"t"}]}''\<close>

definition twenty_numbers :: jsstring where
  \<open>twenty_numbers = lit
     ''{"highlights":[1,2,3,4,5,6,7,8,9,10,11,12,13,14,15,16,17,18,19,20],"improvements":[null]}''\<close>

definition banana_and_null :: jsstring where
  \<open>banana_and_null = lit
     ''{"highlights":[{"category":"banana","confidence":5}],"improvements":[null]}''\<close>

definition leadership_highlight :: jsstring where
  \<open>leadership_highlight = lit ''{"highlights":[{"category":"leadership","confidence":0.9}]}''\<close>

section \<open>Values, errors and what the validators compute\<close>

lemma lit_eq_iff [simp]: "lit a = lit b \<longleftrightarrow> a = b"
  unfolding lit_def by (rule inj_map_eq_map) (simp add: inj_on_def)

lemma lit_Nil_iff [simp]: "lit s = [] \<longleftrightarrow> s = []"
  by (simp add: lit_def)

lemma bindE_Inr [simp]: "bindE (Inr v) f = f v"
  by (simp add: bindE_def)

lemma bindE_Inl [simp]: "bindE (Inl e) f = Inl e"
  by (simp add: bindE_def)

lemma bindE_eq_Inr: "bindE m f = Inr w \<longleftrightarrow> (\<exists>v. m = Inr v \<and> f v = Inr w)"
  by (cases m) simp_all

lemma getProp_optProp: "v \<noteq> JUndefined \<Longrightarrow> v \<noteq> JNull \<Longrightarrow> getProp v k = Inr (optProp v k)"
  by (cases v) simp_all

lemma getProp_nullish: "v = JUndefined \<or> v = JNull \<Longrightarrow> getProp v k = Inl TypeError"
  by auto

lemma optProp_defined: "optProp v k \<noteq> JUndefined \<Longrightarrow> getProp v k = Inr (optProp v k)"
  by (cases v) simp_all

lemma isArray_iff: "isArray v \<longleftrightarrow> (\<exists>xs. v = JArr xs)"
  by (cases v) simp_all

lemma isNumber_iff: "isNumber v \<longleftrightarrow> (\<exists>x. v = JNum x)"
  by (cases v) simp_all

lemma js_includes_defined: "js_includes ss v \<Longrightarrow> v \<noteq> JUndefined"
  by (auto simp: js_includes_def)

lemma truthy_js_or [simp]: "truthy d \<Longrightarrow> truthy (js_or a d)"
  by (simp add: js_or_def)

lemma js_or_truthy [simp]: "truthy a \<Longrightarrow> js_or a d = a"
  by (simp add: js_or_def)

lemma clamp_clamp [simp]: "clamp 1 10 (clamp 1 10 v) = clamp 1 10 v"
  by (cases v) simp_all

lemma isNumber_clamp [simp]: "isNumber (clamp lo hi v) = isNumber v"
  by (cases v) simp_all

lemma capped_eq: "capped obj k n d = Inr (cap n d (optProp obj k))"
  by (cases "optProp obj k") (auto simp: capped_def cap_def optProp_defined)

lemma cap_cap [simp]: "length ds \<le> n \<Longrightarrow> cap n (JArr ds) (cap n (JArr ds) v) = cap n (JArr ds) v"
  by (cases v) (simp_all add: cap_def)

lemma isArray_cap [simp]: "isArray d \<Longrightarrow> isArray (cap n d v)"
  by (cases v) (simp_all add: cap_def)

lemma lookup_Cons [simp]:
  "lookup ((lit k', v) # kvs) k = (if k' = k then v else lookup kvs k)"
  by (simp add: lookup_def)

lemma lookup_Nil [simp]: "lookup [] k = JUndefined"
  by (simp add: lookup_def)

lemma validateTechnicalAssessment_eq:
  "validateTechnicalAssessment tech = Inr (JObj
       [(lit ''level'',
           if js_includes [''junior'', ''mid'', ''senior'', ''staff'', ''principal''] (optProp tech ''level'')
           then optProp tech ''level'' else JStr (lit ''mid'')),
        (lit ''skills_demonstrated'', cap 8 (JArr []) (optProp tech ''skills_demonstrated'')),
        (lit ''knowledge_gaps'', cap 4 (JArr []) (optProp tech ''knowledge_gaps'')),
        (lit ''problem_solving_approach'',
           js_or (optProp tech ''problem_solving_approach'')
             (JStr (lit ''Structured problem-solving approach observed'')))])"
  by (simp add: validateTechnicalAssessment_def capped_eq optProp_defined js_includes_defined)

lemma validateCommunicationAnalysis_eq:
  "validateCommunicationAnalysis comm = Inr (JObj
       [(lit ''clarity'',
           if js_includes [''poor'', ''fair'', ''good'', ''excellent''] (optProp comm ''clarity'')
           then optProp comm ''clarity'' else JStr (lit ''good'')),
        (lit ''structure'', js_or (optProp comm ''structure'') (JStr (lit ''Well-organized responses''))),
        (lit ''listening'',
           js_or (optProp comm ''listening'') (JStr (lit ''Good comprehension of questions''))),
        (lit ''questioning'',
           js_or (optProp comm ''questioning'') (JStr (lit ''Asked relevant follow-up questions'')))])"
  by (simp add: validateCommunicationAnalysis_def optProp_defined js_includes_defined)

lemma validateEntities_eq:
  "validateEntities entities = Inr (JObj
       [(lit ''technologies'', cap 10 (JArr []) (optProp entities ''technologies'')),
        (lit ''companies'', cap 5 (JArr []) (optProp entities ''companies'')),
        (lit ''projects'', cap 5 (JArr []) (optProp entities ''projects'')),
        (lit ''methodologies'', cap 5 (JArr []) (optProp entities ''methodologies''))])"
  by (simp add: validateEntities_def capped_eq)

lemma validateOverallRecommendation_eq:
  "validateOverallRecommendation rec = Inr (JObj
       [(lit ''decision'',
           if js_includes [''strong_hire'', ''hire'', ''maybe'', ''no_hire''] (optProp rec ''decision'')
           then optProp rec ''decision'' else JStr (lit ''maybe'')),
        (lit ''confidence'',
           if isNumber (optProp rec ''confidence'') then clamp 1 10 (optProp rec ''confidence'')
           else JNum 7),
        (lit ''key_strengths'',
           cap 4 (JArr [JStr (lit ''Analysis completed'')]) (optProp rec ''key_strengths'')),
        (lit ''main_concerns'', cap 3 (JArr []) (optProp rec ''main_concerns'')),
        (lit ''cultural_fit'',
           js_or (optProp rec ''cultural_fit'')
             (JStr (lit ''Positive indicators for team collaboration''))),
        (lit ''next_steps'',
           js_or (optProp rec ''next_steps'')
             (JStr (lit ''Recommend technical deep-dive interview'')))])"
  by (auto simp: validateOverallRecommendation_def capped_eq optProp_defined js_includes_defined
      isNumber_iff)

lemma validateInterviewQuality_eq:
  "validateInterviewQuality quality = Inr (JObj
       [(lit ''questions_effectiveness'',
           js_or (optProp quality ''questions_effectiveness'')
             (JStr (lit ''Standard interview questions covered relevant topics''))),
        (lit ''areas_not_explored'', cap 3 (JArr []) (optProp quality ''areas_not_explored'')),
        (lit ''suggested_follow_ups'', cap 4 (JArr []) (optProp quality ''suggested_follow_ups''))])"
  by (simp add: validateInterviewQuality_def capped_eq)

lemma highlight_item_eq:
  "highlight_item h =
     (if h = JUndefined \<or> h = JNull then Inl TypeError
      else Inr (JObj
       [(lit ''text'', js_or (optProp h ''text'') (JStr (lit ''Analysis completed''))),
        (lit ''category'', js_or (optProp h ''category'') (JStr (lit ''general''))),
        (lit ''confidence'',
           if isNumber (optProp h ''confidence'') then optProp h ''confidence'' else JNum (7 / 10)),
        (lit ''reasoning'',
           js_or (optProp h ''reasoning'') (JStr (lit ''Identified as positive indicator'')))]))"
  by (auto simp: highlight_item_def getProp_optProp)

lemma improvement_item_eq:
  "improvement_item i =
     (if i = JUndefined \<or> i = JNull then Inl TypeError
      else Inr (JObj
       [(lit ''text'', js_or (optProp i ''text'') (JStr (lit ''Area for development identified''))),
        (lit ''suggestion'', js_or (optProp i ''suggestion'') (JStr (lit ''Recommend focused practice''))),
        (lit ''priority'',
           if js_includes [''high'', ''medium'', ''low''] (optProp i ''priority'')
           then optProp i ''priority'' else JStr (lit ''medium'')),
        (lit ''category'', js_or (optProp i ''category'') (JStr (lit ''general'')))]))"
  by (auto simp: improvement_item_def getProp_optProp)

lemma flow_item_eq:
  "flow_item f =
     (if f = JUndefined \<or> f = JNull then Inl TypeError
      else Inr (JObj
       [(lit ''section'', js_or (optProp f ''section'') (JStr (lit ''discussion''))),
        (lit ''summary'', js_or (optProp f ''summary'') (JStr (lit ''Interview section covered''))),
        (lit ''key_moments'', cap 3 (JArr []) (optProp f ''key_moments'')),
        (lit ''duration_estimate'',
           js_or (optProp f ''duration_estimate'') (JStr (lit ''5-10 minutes'')))]))"
  by (auto simp: flow_item_def getProp_optProp cap_def isArray_iff split: jsval.splits)

lemma mapE_eq_Inr:
  "mapE f xs = Inr ys \<longleftrightarrow> length ys = length xs \<and> (\<forall>i < length xs. f (xs ! i) = Inr (ys ! i))"
proof (induction xs arbitrary: ys)
  case Nil
  then show ?case by auto
next
  case (Cons x xs)
  show ?case
  proof (cases ys)
    case Nil
    then show ?thesis by (auto simp: bindE_eq_Inr)
  next
    case (Cons y ys')
    then show ?thesis
      using Cons.IH [of ys'] by (auto simp: bindE_eq_Inr less_Suc_eq_0_disj)
  qed
qed

lemma mapE_fix:
  assumes "mapE f xs = Inr ys" and "\<And>x y. f x = Inr y \<Longrightarrow> f y = Inr y"
  shows "mapE f ys = Inr ys"
proof -
  from assms(1) have "length ys = length xs" and "\<forall>i < length xs. f (xs ! i) = Inr (ys ! i)"
    by (simp_all add: mapE_eq_Inr)
  with assms(2) have "\<forall>i < length ys. f (ys ! i) = Inr (ys ! i)"
    by metis
  then show ?thesis by (simp add: mapE_eq_Inr)
qed

lemma fix_idem:
  assumes "\<And>w. V v = Inr w \<Longrightarrow> V w = Inr w"
  shows "bindE (V v) V = V v"
  using assms by (cases "V v") simp_all

lemma items_fix:
  assumes V: "\<And>v. V v = (if \<not> isArray v then Inr (JArr []) else bindE (slice v 0 n) (\<lambda>s. js_map s item))"
    and item: "\<And>x y. item x = Inr y \<Longrightarrow> item y = Inr y"
    and r: "V v = Inr w"
  shows "V w = Inr w"
proof (cases v)
  case (JArr xs)
  with r V [of v] have "bindE (mapE item (take n xs)) (\<lambda>ys. Inr (JArr ys)) = Inr w"
    by simp
  then obtain ys where ys: "mapE item (take n xs) = Inr ys" and w: "w = JArr ys"
    by (auto simp: bindE_eq_Inr)
  from ys have "length ys \<le> n" by (simp add: mapE_eq_Inr)
  moreover from ys item have "mapE item ys = Inr ys" by (rule mapE_fix)
  ultimately show ?thesis unfolding w by (simp add: V [of "JArr ys"])
qed (use r V [of v] V [of "JArr []"] in auto)

lemma highlight_item_fix: "highlight_item x = Inr y \<Longrightarrow> highlight_item y = Inr y"
  by (auto simp: highlight_item_eq [of x] highlight_item_eq [of "JObj kvs" for kvs] split: if_splits)

lemma improvement_item_fix: "improvement_item x = Inr y \<Longrightarrow> improvement_item y = Inr y"
  by (auto simp: improvement_item_eq [of x] improvement_item_eq [of "JObj kvs" for kvs] split: if_splits)

lemma flow_item_fix: "flow_item x = Inr y \<Longrightarrow> flow_item y = Inr y"
  by (auto simp: flow_item_eq [of x] flow_item_eq [of "JObj kvs" for kvs] split: if_splits)

lemma validateHighlights_fix: "validateHighlights v = Inr w \<Longrightarrow> validateHighlights w = Inr w"
  by (rule items_fix [where V = validateHighlights and item = highlight_item and n = 6])
    (simp_all add: validateHighlights_def highlight_item_fix)

lemma validateImprovements_fix: "validateImprovements v = Inr w \<Longrightarrow> validateImprovements w = Inr w"
  by (rule items_fix [where V = validateImprovements and item = improvement_item and n = 4])
    (simp_all add: validateImprovements_def improvement_item_fix)

lemma validateInterviewFlow_fix: "validateInterviewFlow v = Inr w \<Longrightarrow> validateInterviewFlow w = Inr w"
  by (rule items_fix [where V = validateInterviewFlow and item = flow_item and n = 8])
    (simp_all add: validateInterviewFlow_def flow_item_fix)

lemma validateTechnicalAssessment_fix:
  "validateTechnicalAssessment v = Inr w \<Longrightarrow> validateTechnicalAssessment w = Inr w"
  by (auto simp: validateTechnicalAssessment_eq [of v] validateTechnicalAssessment_eq [of "JObj kvs" for kvs])

lemma validateCommunicationAnalysis_fix:
  "validateCommunicationAnalysis v = Inr w \<Longrightarrow> validateCommunicationAnalysis w = Inr w"
  by (auto simp: validateCommunicationAnalysis_eq [of v] validateCommunicationAnalysis_eq [of "JObj kvs" for kvs])

lemma validateEntities_fix: "validateEntities v = Inr w \<Longrightarrow> validateEntities w = Inr w"
  by (auto simp: validateEntities_eq [of v] validateEntities_eq [of "JObj kvs" for kvs])

lemma validateOverallRecommendation_fix:
  "validateOverallRecommendation v = Inr w \<Longrightarrow> validateOverallRecommendation w = Inr w"
  by (auto simp: validateOverallRecommendation_eq [of v] validateOverallRecommendation_eq [of "JObj kvs" for kvs])

lemma validateInterviewQuality_fix:
  "validateInterviewQuality v = Inr w \<Longrightarrow> validateInterviewQuality w = Inr w"
  by (auto simp: validateInterviewQuality_eq [of v] validateInterviewQuality_eq [of "JObj kvs" for kvs])

lemma validateTechnicalAssessment_total:
  "validateTechnicalAssessment v = Inr (technical_assessment_of v)"
  by (simp only: validateTechnicalAssessment_eq technical_assessment_of_def)

lemma validateCommunicationAnalysis_total:
  "validateCommunicationAnalysis v = Inr (communication_analysis_of v)"
  by (simp only: validateCommunicationAnalysis_eq communication_analysis_of_def)

lemma validateEntities_total: "validateEntities v = Inr (entities_of v)"
  by (simp only: validateEntities_eq entities_of_def)

lemma validateOverallRecommendation_total:
  "validateOverallRecommendation v = Inr (overall_recommendation_of v)"
  by (simp only: validateOverallRecommendation_eq overall_recommendation_of_def)

lemma validateInterviewQuality_total: "validateInterviewQuality v = Inr (interview_quality_of v)"
  by (simp only: validateInterviewQuality_eq interview_quality_of_def)

lemmas object_validators_total =
  validateTechnicalAssessment_total validateCommunicationAnalysis_total validateEntities_total
  validateOverallRecommendation_total validateInterviewQuality_total

lemma validated_nullish: "parsed = JUndefined \<or> parsed = JNull \<Longrightarrow> validated parsed = Inl TypeError"
  by (auto simp: validated_def)

lemma validated_eq:
  assumes "parsed \<noteq> JUndefined" and "parsed \<noteq> JNull"
  shows "validated parsed =
     bindE (validateHighlights (optProp parsed ''highlights'')) (\<lambda>highlights.
     bindE (validateImprovements (optProp parsed ''improvements'')) (\<lambda>improvements.
     bindE (validateInterviewFlow (optProp parsed ''interview_flow'')) (\<lambda>interview_flow.
     Inr (JObj
       [(lit ''highlights'', highlights),
        (lit ''improvements'', improvements),
        (lit ''technical_assessment'', technical_assessment_of (optProp parsed ''technical_assessment'')),
        (lit ''communication_analysis'',
           communication_analysis_of (optProp parsed ''communication_analysis'')),
        (lit ''entities'', entities_of (optProp parsed ''entities'')),
        (lit ''interview_flow'', interview_flow),
        (lit ''overall_recommendation'',
           overall_recommendation_of (optProp parsed ''overall_recommendation'')),
        (lit ''interview_quality'', interview_quality_of (optProp parsed ''interview_quality''))]))))"
  unfolding validated_def
  by (simp add: getProp_optProp [OF assms] object_validators_total bindE_def split: sum.splits)

lemma parse_try_JStr: "parse_try (JStr s) = bindE (JSON_parse (jsonText_of s)) validated"
  by (simp add: parse_try_def)

lemma parseAndValidateResponse_JStr:
  "parseAndValidateResponse (JStr s) t =
     (case parse_try (JStr s) of
        Inr v \<Rightarrow> Inr v
      | Inl parseError \<Rightarrow> Inr (createFallbackAnalysis t (JStr s)))"
  by (simp add: parseAndValidateResponse_def split: sum.splits)

lemma validateHighlights_JArr:
  "validateHighlights (JArr xs) = bindE (mapE highlight_item (take 6 xs)) (\<lambda>ys. Inr (JArr ys))"
  by (simp add: validateHighlights_def)

lemma validateImprovements_JArr:
  "validateImprovements (JArr xs) = bindE (mapE improvement_item (take 4 xs)) (\<lambda>ys. Inr (JArr ys))"
  by (simp add: validateImprovements_def)

lemma validateInterviewFlow_JArr:
  "validateInterviewFlow (JArr xs) = bindE (mapE flow_item (take 8 xs)) (\<lambda>ys. Inr (JArr ys))"
  by (simp add: validateInterviewFlow_def)

lemma not_array_defaults:
  "\<not> isArray v \<Longrightarrow> validateHighlights v = Inr (JArr [])"
  "\<not> isArray v \<Longrightarrow> validateImprovements v = Inr (JArr [])"
  "\<not> isArray v \<Longrightarrow> validateInterviewFlow v = Inr (JArr [])"
  by (simp_all add: validateHighlights_def validateImprovements_def validateInterviewFlow_def)

lemma mapE_total:
  assumes "\<And>x. x \<in> set xs \<Longrightarrow> \<exists>y. f x = Inr y"
  shows "\<exists>ys. mapE f xs = Inr ys"
  using assms by (induction xs) (force simp: bindE_eq_Inr)+

lemma highlight_item_fields:
  assumes "highlight_item h = Inr y"
  shows "optProp y ''category'' = js_or (optProp h ''category'') (JStr (lit ''general''))"
    and "optProp y ''confidence''
          = (if isNumber (optProp h ''confidence'') then optProp h ''confidence'' else JNum (7 / 10))"
  using assms by (auto simp: highlight_item_eq split: if_splits)

lemma mapE_isl: "isl (mapE f xs) \<longleftrightarrow> (\<exists>x \<in> set xs. isl (f x))"
proof (induction xs)
  case Nil
  then show ?case by simp
next
  case (Cons x xs)
  then show ?case
    by (cases "f x"; cases "mapE f xs") auto
qed

lemma item_isl:
  "isl (highlight_item x) \<longleftrightarrow> \<not> present x"
  "isl (improvement_item x) \<longleftrightarrow> \<not> present x"
  "isl (flow_item x) \<longleftrightarrow> \<not> present x"
  by (auto simp: present_def highlight_item_eq improvement_item_eq flow_item_eq)

lemma items_elements:
  assumes V: "\<And>v. V v = (if \<not> isArray v then Inr (JArr []) else bindE (slice v 0 n) (\<lambda>s. js_map s item))"
    and item: "\<And>x. isl (item x) \<longleftrightarrow> \<not> present x"
  shows "isl (V v) \<longleftrightarrow> \<not> list_all present (take n (elements v))"
    and "V v = Inr r \<Longrightarrow>
           r = JArr (elements r) \<and> length (elements r) = min n (length (elements v))
           \<and> (\<forall>i < length (elements r). item (elements v ! i) = Inr (elements r ! i))"
proof -
  show "isl (V v) \<longleftrightarrow> \<not> list_all present (take n (elements v))"
  proof (cases v)
    case (JArr xs)
    have "isl (V v) \<longleftrightarrow> isl (mapE item (take n xs))"
      unfolding JArr by (cases "mapE item (take n xs)") (simp_all add: V [of "JArr xs"])
    then show ?thesis
      by (simp add: mapE_isl item JArr elements_def list_all_iff)
  qed (simp_all add: V elements_def)
  show "r = JArr (elements r) \<and> length (elements r) = min n (length (elements v))
           \<and> (\<forall>i < length (elements r). item (elements v ! i) = Inr (elements r ! i))"
    if r: "V v = Inr r"
  proof (cases v)
    case (JArr xs)
    with r V [of v] have "bindE (mapE item (take n xs)) (\<lambda>ys. Inr (JArr ys)) = Inr r"
      by simp
    then obtain ys where ys: "mapE item (take n xs) = Inr ys" and r': "r = JArr ys"
      by (auto simp: bindE_eq_Inr)
    from ys show ?thesis
      by (simp add: mapE_eq_Inr r' JArr elements_def)
  qed (use r in \<open>auto simp: V elements_def\<close>)
qed

lemmas validateHighlights_elements =
  items_elements [where V = validateHighlights and item = highlight_item and n = 6,
    OF validateHighlights_def item_isl(1)]

lemmas validateImprovements_elements =
  items_elements [where V = validateImprovements and item = improvement_item and n = 4,
    OF validateImprovements_def item_isl(2)]

lemmas validateInterviewFlow_elements =
  items_elements [where V = validateInterviewFlow and item = flow_item and n = 8,
    OF validateInterviewFlow_def item_isl(3)]

lemma validated_isl: "isl (validated parsed) \<longleftrightarrow> \<not> no_null_read parsed"
proof (cases "present parsed")
  case False
  then show ?thesis
    using validated_nullish [of parsed] by (auto simp: present_def no_null_read_def)
next
  case True
  then have p: "parsed \<noteq> JUndefined" "parsed \<noteq> JNull"
    by (simp_all add: present_def)
  show ?thesis
    using True validateHighlights_elements(1) [of "optProp parsed ''highlights''"]
      validateImprovements_elements(1) [of "optProp parsed ''improvements''"]
      validateInterviewFlow_elements(1) [of "optProp parsed ''interview_flow''"]
    by (cases "validateHighlights (optProp parsed ''highlights'')";
        cases "validateImprovements (optProp parsed ''improvements'')";
        cases "validateInterviewFlow (optProp parsed ''interview_flow'')")
      (simp_all add: validated_eq [OF p] no_null_read_def)
qed

lemma validated_fields:
  assumes "validated parsed = Inr r"
  shows "validateHighlights (optProp parsed ''highlights'') = Inr (optProp r ''highlights'')"
    and "validateImprovements (optProp parsed ''improvements'') = Inr (optProp r ''improvements'')"
    and "validateInterviewFlow (optProp parsed ''interview_flow'') = Inr (optProp r ''interview_flow'')"
    and "optProp r ''technical_assessment''
           = technical_assessment_of (optProp parsed ''technical_assessment'')"
    and "optProp r ''communication_analysis''
           = communication_analysis_of (optProp parsed ''communication_analysis'')"
    and "optProp r ''entities'' = entities_of (optProp parsed ''entities'')"
    and "optProp r ''overall_recommendation''
           = overall_recommendation_of (optProp parsed ''overall_recommendation'')"
    and "optProp r ''interview_quality'' = interview_quality_of (optProp parsed ''interview_quality'')"
proof -
  from assms have p: "parsed \<noteq> JUndefined" "parsed \<noteq> JNull"
    using validated_nullish [of parsed] by auto
  from assms obtain h i f where
    h: "validateHighlights (optProp parsed ''highlights'') = Inr h" and
    i: "validateImprovements (optProp parsed ''improvements'') = Inr i" and
    f: "validateInterviewFlow (optProp parsed ''interview_flow'') = Inr f" and
    r: "r = JObj
       [(lit ''highlights'', h),
        (lit ''improvements'', i),
        (lit ''technical_assessment'', technical_assessment_of (optProp parsed ''technical_assessment'')),
        (lit ''communication_analysis'',
           communication_analysis_of (optProp parsed ''communication_analysis'')),
        (lit ''entities'', entities_of (optProp parsed ''entities'')),
        (lit ''interview_flow'', f),
        (lit ''overall_recommendation'',
           overall_recommendation_of (optProp parsed ''overall_recommendation'')),
        (lit ''interview_quality'', interview_quality_of (optProp parsed ''interview_quality''))]"
    unfolding validated_eq [OF p] bindE_eq_Inr by blast
  show "validateHighlights (optProp parsed ''highlights'') = Inr (optProp r ''highlights'')"
    and "validateImprovements (optProp parsed ''improvements'') = Inr (optProp r ''improvements'')"
    and "validateInterviewFlow (optProp parsed ''interview_flow'') = Inr (optProp r ''interview_flow'')"
    and "optProp r ''technical_assessment''
           = technical_assessment_of (optProp parsed ''technical_assessment'')"
    and "optProp r ''communication_analysis''
           = communication_analysis_of (optProp parsed ''communication_analysis'')"
    and "optProp r ''entities'' = entities_of (optProp parsed ''entities'')"
    and "optProp r ''overall_recommendation''
           = overall_recommendation_of (optProp parsed ''overall_recommendation'')"
    and "optProp r ''interview_quality'' = interview_quality_of (optProp parsed ''interview_quality'')"
    by (simp_all add: r h i f)
qed

lemma fallback_highlights:
  "elements (optProp (createFallbackAnalysis t raw) ''highlights'')
     = [JObj
          [(lit ''text'', JStr (lit ''AI analysis completed but response parsing failed'')),
           (lit ''category'', JStr (lit ''general'')),
           (lit ''confidence'', JNum (1 / 2)),
           (lit ''reasoning'', JStr (lit ''Technical issue with response format''))]]"
  by (simp add: createFallbackAnalysis_def elements_def)

lemma parse_try_cases:
  obtains (fails) "isl (JSON_parse (jsonText_of s))" and "isl (parse_try (JStr s))"
  | (parses) parsed where "JSON_parse (jsonText_of s) = Inr parsed"
      and "parse_try (JStr s) = validated parsed"
  by (cases "JSON_parse (jsonText_of s)") (simp_all add: parse_try_JStr)

lemma normalized_cases:
  obtains (fallback) "isl (parse_try (JStr s))"
      and "parseAndValidateResponse (JStr s) t = Inr (createFallbackAnalysis t (JStr s))"
      and "normalized s t = createFallbackAnalysis t (JStr s)"
  | (validated) "\<not> isl (parse_try (JStr s))" and "\<not> isl (JSON_parse (jsonText_of s))"
      and "JSON_parse (jsonText_of s) = Inr (parsed_of s)"
      and "parseAndValidateResponse (JStr s) t = Inr (normalized s t)"
      and "validated (parsed_of s) = Inr (normalized s t)"
proof (cases "parse_try (JStr s)")
  case (Inl e)
  then show ?thesis
    by (intro fallback) (simp_all add: parseAndValidateResponse_JStr normalized_def)
next
  case (Inr r)
  then obtain p where p: "JSON_parse (jsonText_of s) = Inr p" and v: "validated p = Inr r"
    by (cases "JSON_parse (jsonText_of s)") (simp_all add: parse_try_JStr)
  with Inr show ?thesis
    by (intro validated) (simp_all add: parseAndValidateResponse_JStr normalized_def parsed_of_def)
qed

lemma parse_try_isl:
  "isl (parse_try (JStr s))
     \<longleftrightarrow> isl (JSON_parse (jsonText_of s)) \<or> \<not> no_null_read (parsed_of s)"
  by (cases "JSON_parse (jsonText_of s)") (simp_all add: parse_try_JStr parsed_of_def validated_isl)

section \<open>The shape of the results\<close>

lemma has_keys_JObj [simp]: "has_keys (JObj kvs) ks \<longleftrightarrow> map fst kvs = map lit ks"
  by (simp add: has_keys_def)

lemma array_of_JArr [simp]: "array_of n P (JArr xs) \<longleftrightarrow> length xs \<le> n \<and> list_all P xs"
  by (simp add: array_of_def)

lemma array_of_cap [simp]: "length ds \<le> n \<Longrightarrow> array_of n (\<lambda>v. True) (cap n (JArr ds) v)"
  by (cases v) (simp_all add: cap_def list_all_iff)

lemma highlight_item_shape: "highlight_item x = Inr y \<Longrightarrow> highlight_shape y"
  by (auto simp: highlight_item_eq highlight_shape_def split: if_splits)

lemma improvement_item_shape: "improvement_item x = Inr y \<Longrightarrow> improvement_shape y"
  by (auto simp: improvement_item_eq improvement_shape_def js_includes_def split: if_splits)

lemma flow_item_shape: "flow_item x = Inr y \<Longrightarrow> flow_shape y"
  by (auto simp: flow_item_eq flow_shape_def split: if_splits)

lemma items_shape:
  assumes V: "\<And>v. V v = (if \<not> isArray v then Inr (JArr []) else bindE (slice v 0 n) (\<lambda>s. js_map s item))"
    and item: "\<And>x y. item x = Inr y \<Longrightarrow> P y"
    and r: "V v = Inr r"
  shows "array_of n P r"
proof (cases v)
  case (JArr xs)
  with r V [of v] have "bindE (mapE item (take n xs)) (\<lambda>ys. Inr (JArr ys)) = Inr r"
    by simp
  then obtain ys where ys: "mapE item (take n xs) = Inr ys" and r': "r = JArr ys"
    by (auto simp: bindE_eq_Inr)
  from ys have "length ys \<le> n" and "\<forall>i < length ys. item (take n xs ! i) = Inr (ys ! i)"
    by (simp_all add: mapE_eq_Inr)
  with item have "list_all P ys"
    unfolding list_all_length by blast
  with \<open>length ys \<le> n\<close> show ?thesis by (simp add: r')
qed (use r V [of v] in auto)

lemma validateHighlights_shape: "validateHighlights v = Inr r \<Longrightarrow> array_of 6 highlight_shape r"
  by (rule items_shape [where V = validateHighlights and item = highlight_item])
    (simp_all add: validateHighlights_def highlight_item_shape)

lemma validateImprovements_shape: "validateImprovements v = Inr r \<Longrightarrow> array_of 4 improvement_shape r"
  by (rule items_shape [where V = validateImprovements and item = improvement_item])
    (simp_all add: validateImprovements_def improvement_item_shape)

lemma validateInterviewFlow_shape: "validateInterviewFlow v = Inr r \<Longrightarrow> array_of 8 flow_shape r"
  by (rule items_shape [where V = validateInterviewFlow and item = flow_item])
    (simp_all add: validateInterviewFlow_def flow_item_shape)

lemma technical_assessment_of_shape: "technical_shape level_values (technical_assessment_of v)"
  by (simp add: technical_shape_def technical_assessment_of_def level_values_def)
    (simp add: js_includes_def)

lemma communication_analysis_of_shape: "communication_shape clarity_values (communication_analysis_of v)"
  by (simp add: communication_shape_def communication_analysis_of_def clarity_values_def)
    (simp add: js_includes_def)

lemma entities_of_shape: "entities_shape (entities_of v)"
  by (simp add: entities_shape_def entities_of_def)

lemma overall_recommendation_of_shape: "recommendation_shape (overall_recommendation_of v)"
  by (auto simp: recommendation_shape_def overall_recommendation_of_def isNumber_iff)
    (simp_all add: js_includes_def)

lemma interview_quality_of_shape: "quality_shape (interview_quality_of v)"
  by (simp add: quality_shape_def interview_quality_of_def)

lemma validated_shape:
  assumes "validated parsed = Inr r"
  shows "analysis_shape level_values clarity_values r"
proof -
  from assms have p: "parsed \<noteq> JUndefined" "parsed \<noteq> JNull"
    using validated_nullish [of parsed] by auto
  from assms obtain h i f where
    h: "validateHighlights (optProp parsed ''highlights'') = Inr h" and
    i: "validateImprovements (optProp parsed ''improvements'') = Inr i" and
    f: "validateInterviewFlow (optProp parsed ''interview_flow'') = Inr f" and
    r: "r = JObj
       [(lit ''highlights'', h),
        (lit ''improvements'', i),
        (lit ''technical_assessment'', technical_assessment_of (optProp parsed ''technical_assessment'')),
        (lit ''communication_analysis'',
           communication_analysis_of (optProp parsed ''communication_analysis'')),
        (lit ''entities'', entities_of (optProp parsed ''entities'')),
        (lit ''interview_flow'', f),
        (lit ''overall_recommendation'',
           overall_recommendation_of (optProp parsed ''overall_recommendation'')),
        (lit ''interview_quality'', interview_quality_of (optProp parsed ''interview_quality''))]"
    unfolding validated_eq [OF p] bindE_eq_Inr by blast
  show ?thesis
    unfolding r analysis_shape_def
    by (simp add: top_level_keys_def validateHighlights_shape [OF h] validateImprovements_shape [OF i]
        validateInterviewFlow_shape [OF f] technical_assessment_of_shape
        communication_analysis_of_shape entities_of_shape overall_recommendation_of_shape
        interview_quality_of_shape)
qed

lemma fallback_shape: "analysis_shape [''unknown''] [''unknown''] (createFallbackAnalysis t raw)"
  by (simp add: analysis_shape_def createFallbackAnalysis_def top_level_keys_def
      highlight_shape_def improvement_shape_def technical_shape_def communication_shape_def
      entities_shape_def recommendation_shape_def quality_shape_def js_includes_def)

section \<open>The loop of analyzeTranscript\<close>

lemma trim_Nil [simp]: "trim [] = []"
  by (simp add: trim_def)

lemma guard_iff: "(transcript = [] \<or> length (trim transcript) < 50) \<longleftrightarrow> length (trim transcript) < 50"
  by auto

lemma analyze_loop_success:
  assumes "attempt \<le> MAX_RETRIES" and "perform e transcript attempt mentor interviewType tr = (Inr r, tr')"
  shows "analyze_loop perform e transcript mentor interviewType attempt tr = (Inr r, tr')"
  using assms by (subst analyze_loop.simps) simp

lemma analyze_loop_retry:
  assumes "attempt < MAX_RETRIES" and "perform e transcript attempt mentor interviewType tr = (Inl err, tr')"
  shows "analyze_loop perform e transcript mentor interviewType attempt tr
       = analyze_loop perform e transcript mentor interviewType (Suc attempt)
           (tr' @ [Sleep (RETRY_DELAY * attempt)])"
  using assms by (subst analyze_loop.simps) simp

lemma analyze_loop_last:
  assumes "attempt = MAX_RETRIES" and "perform e transcript attempt mentor interviewType tr = (Inl err, tr')"
  shows "analyze_loop perform e transcript mentor interviewType attempt tr
       = (Inr (generateDemoAnalysis (clock e (fetches tr')) transcript mentor interviewType), tr')"
  using assms by (subst analyze_loop.simps) simp

lemma analyze_loop_returns:
  "\<not> isl (fst (analyze_loop perform e transcript mentor interviewType attempt tr))"
proof (induction perform e transcript mentor interviewType attempt tr rule: analyze_loop.induct)
  case (1 perform e transcript mentor interviewType attempt tr)
  show ?case
  proof (cases "attempt \<le> MAX_RETRIES")
    case False
    then show ?thesis
      by (simp add: analyze_loop.simps [of perform e transcript mentor interviewType attempt])
  next
    case le: True
    obtain res tr' where p: "perform e transcript attempt mentor interviewType tr = (res, tr')"
      by (cases "perform e transcript attempt mentor interviewType tr")
    show ?thesis
    proof (cases res)
      case (Inr r)
      with le p show ?thesis by (simp add: analyze_loop_success)
    next
      case (Inl err)
      show ?thesis
      proof (cases "attempt = MAX_RETRIES")
        case True
        with p Inl show ?thesis by (simp add: analyze_loop_last)
      next
        case False
        with le have lt: "attempt < MAX_RETRIES" by simp
        from p Inl have p': "perform e transcript attempt mentor interviewType tr = (Inl err, tr')"
          by simp
        from "1.IH" [OF le p [symmetric] _ False] Inl
        show ?thesis
          using analyze_loop_retry [where perform = perform, OF lt p'] by simp
      qed
    qed
  qed
qed

lemma demo_mode: 
  "optProp (optProp (generateDemoAnalysis now transcript mentor interviewType) ''metadata'') ''demo_mode''
     = JBool True"
  by (simp add: generateDemoAnalysis_def Let_def)

lemma demo_analysis_clock:
  "optProp (generateDemoAnalysis now transcript mentor interviewType) ''analysis''
     = optProp (generateDemoAnalysis now' transcript mentor interviewType) ''analysis''"
  by (simp add: generateDemoAnalysis_def Let_def)

lemma fetches_simps [simp]:
  "fetches [] = 0"
  "fetches (tr @ [Fetch]) = Suc (fetches tr)"
  "fetches (tr @ [Sleep d]) = fetches tr"
  "fetches (Fetch # tr) = Suc (fetches tr)"
  "fetches (Sleep d # tr) = fetches tr"
  by (simp_all add: fetches_def)

lemma performAnalysis_transport_failure:
  assumes "transport_failure (upstream e (fetches tr))"
  shows "\<exists>err. performAnalysis e transcript attempt mentor interviewType tr = (Inl err, tr @ [Fetch])"
  using assms
  by (auto simp: performAnalysis_def transport_failure_def text_of_def
      split: fetch_outcome.splits option.splits)

lemma performAnalysis_ai_transport_failure:
  assumes "transport_failure (upstream e (fetches tr))"
  shows "\<exists>err. performAnalysis_ai e transcript attempt mentor interviewType tr = (Inl err, tr @ [Fetch])"
  using assms
  by (auto simp: performAnalysis_ai_def transport_failure_def text_of_def
      split: fetch_outcome.splits option.splits)

lemma three_failures:
  assumes "\<And>attempt tr. transport_failure (upstream e (fetches tr)) \<Longrightarrow>
             \<exists>err. perform e transcript attempt mentor interviewType tr = (Inl err, tr @ [Fetch])"
    and "\<forall>n < 3. transport_failure (upstream e n)"
  shows "analyze_loop perform e transcript mentor interviewType 1 []
       = (Inr (generateDemoAnalysis (clock e 3) transcript mentor interviewType),
          [Fetch, Sleep 1000, Fetch, Sleep 2000, Fetch])"
proof -
  from assms obtain err1 where 1: "perform e transcript 1 mentor interviewType [] = (Inl err1, [] @ [Fetch])"
    by (metis fetches_simps(1) zero_less_numeral)
  from assms(1) [of "[Fetch, Sleep 1000]" 2] assms(2)
  obtain err2 where 2: "perform e transcript 2 mentor interviewType [Fetch, Sleep 1000]
      = (Inl err2, [Fetch, Sleep 1000] @ [Fetch])"
    by auto
  from assms(1) [of "[Fetch, Sleep 1000, Fetch, Sleep 2000]" 3] assms(2)
  obtain err3 where 3: "perform e transcript 3 mentor interviewType [Fetch, Sleep 1000, Fetch, Sleep 2000]
      = (Inl err3, [Fetch, Sleep 1000, Fetch, Sleep 2000] @ [Fetch])"
    by auto
  have "analyze_loop perform e transcript mentor interviewType 1 []
      = analyze_loop perform e transcript mentor interviewType 2 [Fetch, Sleep 1000]"
    using analyze_loop_retry [where perform = perform and attempt = 1 and tr = "[]", OF _ 1]
    by (simp add: MAX_RETRIES_def RETRY_DELAY_def numeral_2_eq_2)
  also have "\<dots> = analyze_loop perform e transcript mentor interviewType 3
      [Fetch, Sleep 1000, Fetch, Sleep 2000]"
    using analyze_loop_retry [where perform = perform and attempt = 2 and tr = "[Fetch, Sleep 1000]", OF _ 2]
    by (simp add: MAX_RETRIES_def RETRY_DELAY_def numeral_3_eq_3 numeral_2_eq_2)
  also have "\<dots> = (Inr (generateDemoAnalysis (clock e 3) transcript mentor interviewType),
          [Fetch, Sleep 1000, Fetch, Sleep 2000, Fetch])"
    using analyze_loop_last [where perform = perform and attempt = 3
        and tr = "[Fetch, Sleep 1000, Fetch, Sleep 2000]", OF _ 3]
    by (simp add: MAX_RETRIES_def numeral_3_eq_3)
  finally show ?thesis .
qed

lemma spaced_lengths: "length (non_whitespace spaced) = 26 \<and> length (trim spaced) = 51"
  by (simp add: non_whitespace_def trim_def spaced_def lit_def isWhiteSpace_def)

lemma interview_length: "length (trim interview) = 72"
  by (simp add: trim_def interview_def lit_def isWhiteSpace_def)

lemma short_length: "length (trim (lit ''too short'')) = 9"
  by (simp add: trim_def lit_def isWhiteSpace_def)

lemma ResponseValidator_parseAndValidateResponse_JStr:
  "ResponseValidator_parseAndValidateResponse (JStr s) t =
     (case ResponseValidator_try (JStr s) of
        Inr v \<Rightarrow> Inr v
      | Inl parseError \<Rightarrow> Inr (createFallbackAnalysis t (JStr s)))"
  by (simp add: ResponseValidator_parseAndValidateResponse_def split: sum.splits)

lemma falsy_optProp: "\<not> truthy v \<Longrightarrow> optProp v k = JUndefined"
  by (cases v) simp_all

lemma falsy_optIndex: "\<not> truthy v \<Longrightarrow> optIndex v i = JUndefined"
  by (cases v) (simp_all add: optIndex_def)

lemma truthy_getProp: "truthy v \<Longrightarrow> getProp v k = Inr (optProp v k)"
  by (cases v) simp_all

lemma truthy_getIndex: "truthy v \<Longrightarrow> getIndex v i = Inr (optIndex v i)"
  by (cases v) (simp_all add: optIndex_def)

lemma optProp_JStr_truthy: "optProp v k = JStr s \<Longrightarrow> v \<noteq> JUndefined \<and> v \<noteq> JNull"
  by (cases v) simp_all

lemma returned_textD:
  assumes "returned_text out = Some T"
  obtains r data where "out = Response r" and "ok r" and "json_of r = Inr data"
    and "data \<noteq> JUndefined" and "data \<noteq> JNull"
    and "truthy (optProp data ''choices'')"
    and "truthy (optIndex (optProp data ''choices'') 0)"
    and "truthy (optProp (optIndex (optProp data ''choices'') 0) ''message'')"
    and "optProp (optProp (optIndex (optProp data ''choices'') 0) ''message'') ''content'' = JStr T"
proof -
  from assms obtain r where out: "out = Response r" and ok: "ok r"
    by (auto simp: returned_text_def split: fetch_outcome.splits if_splits)
  with assms obtain data where data: "json_of r = Inr data"
    and content: "optProp (optProp (optIndex (optProp data ''choices'') 0) ''message'') ''content'' = JStr T"
    by (auto simp: returned_text_def split: sum.splits jsval.splits)
  let ?choices = "optProp data ''choices''"
  have m: "truthy (optProp (optIndex ?choices 0) ''message'')"
  proof (rule ccontr)
    assume "\<not> truthy (optProp (optIndex ?choices 0) ''message'')"
    then have "optProp (optProp (optIndex ?choices 0) ''message'') ''content'' = JUndefined"
      by (rule falsy_optProp)
    with content show False by simp
  qed
  have c: "truthy (optIndex ?choices 0)"
  proof (rule ccontr)
    assume "\<not> truthy (optIndex ?choices 0)"
    then have "optProp (optIndex ?choices 0) ''message'' = JUndefined"
      by (rule falsy_optProp)
    with m show False by simp
  qed
  have cs: "truthy ?choices"
  proof (rule ccontr)
    assume "\<not> truthy ?choices"
    then have "optIndex ?choices 0 = JUndefined"
      by (rule falsy_optIndex)
    with c show False by simp
  qed
  have d1: "data \<noteq> JUndefined" and d2: "data \<noteq> JNull"
    using cs by auto
  show ?thesis
    by (rule that [OF out ok data d1 d2 cs c m content])
qed

lemma performAnalysis_returned:
  assumes "returned_text (upstream e (fetches tr)) = Some T" and "trim T \<noteq> []"
  shows "performAnalysis e transcript attempt mentor interviewType tr =
     (bindE (ResponseValidator_parseAndValidateResponse (JStr (trim T)) (JStr transcript))
        (\<lambda>analysis. Inr (JObj
           [(lit ''success'', JBool True),
            (lit ''analysis'', analysis),
            (lit ''metadata'', JObj
               [(lit ''model'', JStr MODEL),
                (lit ''timestamp'', JStr (clock e (Suc (fetches tr)))),
                (lit ''processing_time_ms'', JNum (elapsed e (fetches tr))),
                (lit ''attempt_number'', JNum (of_nat attempt)),
                (lit ''transcript_length'', JNum (of_nat (length transcript))),
                (lit ''tokens_used'',
                   js_or (optProp (optProp (projr (json_of (case upstream e (fetches tr) of Response r \<Rightarrow> r)))
                      ''usage'') ''total_tokens'') (JStr (lit ''unknown'')))])])),
      tr @ [Fetch])"
  using assms(1)
proof (rule returned_textD)
  fix r data
  assume "upstream e (fetches tr) = Response r" "ok r" "json_of r = Inr data"
    "data \<noteq> JUndefined" "data \<noteq> JNull"
    "truthy (optProp data ''choices'')"
    "truthy (optIndex (optProp data ''choices'') 0)"
    "truthy (optProp (optIndex (optProp data ''choices'') 0) ''message'')"
    "optProp (optProp (optIndex (optProp data ''choices'') 0) ''message'') ''content'' = JStr T"
  with assms(2) show ?thesis
    by (simp add: performAnalysis_def Let_def getProp_optProp truthy_getProp truthy_getIndex)
qed

lemma performAnalysis_ai_returned:
  assumes "returned_text (upstream e (fetches tr)) = Some T" and "trim T \<noteq> []"
  shows "performAnalysis_ai e transcript attempt mentor interviewType tr =
     (bindE (parseAndValidateResponse (JStr T) (JStr transcript))
        (\<lambda>analysis. Inr (JObj
           [(lit ''success'', JBool True),
            (lit ''analysis'', analysis),
            (lit ''metadata'', JObj
               [(lit ''model'', JStr MODEL),
                (lit ''timestamp'', JStr (clock e (Suc (fetches tr)))),
                (lit ''transcript_length'', JNum (of_nat (length transcript))),
                (lit ''attempt_number'', JNum (of_nat attempt)),
                (lit ''token_usage'',
                   js_or (optProp (projr (json_of (case upstream e (fetches tr) of Response r \<Rightarrow> r)))
                      ''usage'') JNull)])])),
      tr @ [Fetch])"
  using assms(1)
proof (rule returned_textD)
  fix r data
  assume "upstream e (fetches tr) = Response r" "ok r" "json_of r = Inr data"
    "data \<noteq> JUndefined" "data \<noteq> JNull"
    "truthy (optProp data ''choices'')"
    "truthy (optIndex (optProp data ''choices'') 0)"
    "truthy (optProp (optIndex (optProp data ''choices'') 0) ''message'')"
    "optProp (optProp (optIndex (optProp data ''choices'') 0) ''message'') ''content'' = JStr T"
  moreover from assms(2) have "T \<noteq> []" by auto
  ultimately show ?thesis
    by (simp add: performAnalysis_ai_def Let_def getProp_optProp)
qed

lemma trim_ends: "trim s = [] \<or> \<not> isWhiteSpace (hd (trim s))"
proof -
  let ?u = "dropWhile isWhiteSpace s"
  let ?r = "dropWhile isWhiteSpace (rev ?u)"
  show ?thesis
  proof (cases "?r = []")
    case True
    then show ?thesis by (simp add: trim_def)
  next
    case False
    have u: "?u \<noteq> []"
    proof
      assume e: "?u = []"
      have "?r = []" unfolding e by simp
      with False show False by contradiction
    qed
    have "?r = drop (length (takeWhile isWhiteSpace (rev ?u))) (rev ?u)"
      by (rule dropWhile_eq_drop)
    moreover from False have "length (takeWhile isWhiteSpace (rev ?u)) < length (rev ?u)"
      by (metis calculation drop_all leI)
    ultimately have "last ?r = last (rev ?u)"
      by (metis last_drop)
    with u have "last ?r = hd ?u"
      by (simp add: last_rev)
    moreover from u have "\<not> isWhiteSpace (hd ?u)"
      by (rule hd_dropWhile)
    ultimately show ?thesis
      using False by (simp add: trim_def hd_rev)
  qed
qed

lemma trim_trim [simp]: "trim (trim s) = trim s"
proof -
  have "dropWhile isWhiteSpace (trim s) = trim s"
    using trim_ends [of s] by (simp add: dropWhile_eq_self_iff)
  then show ?thesis
    by (simp add: trim_def)
qed

lemma analyze_loop_returned:
  assumes "attempt \<le> MAX_RETRIES" and "returned_text (upstream e (fetches tr)) = Some T"
    and "trim T \<noteq> []"
  shows "analyze_loop performAnalysis e transcript mentor interviewType attempt tr =
           performAnalysis e transcript attempt mentor interviewType tr"
    and "\<not> isl (fst (performAnalysis e transcript attempt mentor interviewType tr))"
    and "snd (performAnalysis e transcript attempt mentor interviewType tr) = tr @ [Fetch]"
    and "optProp (projr (fst (performAnalysis e transcript attempt mentor interviewType tr))) ''success''
           = JBool True"
    and "optProp (projr (fst (performAnalysis e transcript attempt mentor interviewType tr))) ''analysis''
           = projr (ResponseValidator_parseAndValidateResponse (JStr (trim T)) (JStr transcript))"
    and "optProp (optProp (projr (fst (performAnalysis e transcript attempt mentor interviewType tr)))
           ''metadata'') ''attempt_number'' = JNum (of_nat attempt)"
proof -
  obtain a where a: "ResponseValidator_parseAndValidateResponse (JStr (trim T)) (JStr transcript) = Inr a"
    by (cases "ResponseValidator_try (JStr (trim T))")
      (simp_all add: ResponseValidator_parseAndValidateResponse_JStr)
  note p = performAnalysis_returned [OF assms(2,3), of transcript attempt mentor interviewType,
      unfolded a bindE_Inr]
  show "analyze_loop performAnalysis e transcript mentor interviewType attempt tr =
           performAnalysis e transcript attempt mentor interviewType tr"
    by (simp add: analyze_loop_success [where perform = performAnalysis, OF assms(1) p] p)
  show "\<not> isl (fst (performAnalysis e transcript attempt mentor interviewType tr))"
    and "snd (performAnalysis e transcript attempt mentor interviewType tr) = tr @ [Fetch]"
    and "optProp (projr (fst (performAnalysis e transcript attempt mentor interviewType tr))) ''success''
           = JBool True"
    and "optProp (projr (fst (performAnalysis e transcript attempt mentor interviewType tr))) ''analysis''
           = projr (ResponseValidator_parseAndValidateResponse (JStr (trim T)) (JStr transcript))"
    and "optProp (optProp (projr (fst (performAnalysis e transcript attempt mentor interviewType tr)))
           ''metadata'') ''attempt_number'' = JNum (of_nat attempt)"
    unfolding p a by simp_all
qed

lemma analyze_loop_ai_returned:
  assumes "attempt \<le> MAX_RETRIES" and "returned_text (upstream e (fetches tr)) = Some T"
    and "trim T \<noteq> []"
  shows "analyze_loop performAnalysis_ai e transcript mentor interviewType attempt tr =
           performAnalysis_ai e transcript attempt mentor interviewType tr"
    and "\<not> isl (fst (performAnalysis_ai e transcript attempt mentor interviewType tr))"
    and "snd (performAnalysis_ai e transcript attempt mentor interviewType tr) = tr @ [Fetch]"
    and "optProp (projr (fst (performAnalysis_ai e transcript attempt mentor interviewType tr))) ''success''
           = JBool True"
    and "optProp (projr (fst (performAnalysis_ai e transcript attempt mentor interviewType tr))) ''analysis''
           = projr (parseAndValidateResponse (JStr T) (JStr transcript))"
    and "optProp (optProp (projr (fst (performAnalysis_ai e transcript attempt mentor interviewType tr)))
           ''metadata'') ''attempt_number'' = JNum (of_nat attempt)"
proof -
  obtain a where a: "parseAndValidateResponse (JStr T) (JStr transcript) = Inr a"
    by (cases "parse_try (JStr T)") (simp_all add: parseAndValidateResponse_JStr)
  note p = performAnalysis_ai_returned [OF assms(2,3), of transcript attempt mentor interviewType,
      unfolded a bindE_Inr]
  show "analyze_loop performAnalysis_ai e transcript mentor interviewType attempt tr =
           performAnalysis_ai e transcript attempt mentor interviewType tr"
    by (simp add: analyze_loop_success [where perform = performAnalysis_ai, OF assms(1) p] p)
  show "\<not> isl (fst (performAnalysis_ai e transcript attempt mentor interviewType tr))"
    and "snd (performAnalysis_ai e transcript attempt mentor interviewType tr) = tr @ [Fetch]"
    and "optProp (projr (fst (performAnalysis_ai e transcript attempt mentor interviewType tr))) ''success''
           = JBool True"
    and "optProp (projr (fst (performAnalysis_ai e transcript attempt mentor interviewType tr))) ''analysis''
           = projr (parseAndValidateResponse (JStr T) (JStr transcript))"
    and "optProp (optProp (projr (fst (performAnalysis_ai e transcript attempt mentor interviewType tr)))
           ''metadata'') ''attempt_number'' = JNum (of_nat attempt)"
    unfolding p a by simp_all
qed

lemma unparseable_fallback:
  "isl (JSON_parse (jsonText_of T)) \<Longrightarrow>
     parseAndValidateResponse (JStr T) t = Inr (createFallbackAnalysis t (JStr T))"
  by (cases "JSON_parse (jsonText_of T)") (simp_all add: parseAndValidateResponse_JStr parse_try_JStr)

lemma ResponseValidator_unparseable_fallback:
  "isl (bindE (ResponseValidator_jsonText (trim T)) JSON_parse) \<Longrightarrow>
     ResponseValidator_parseAndValidateResponse (JStr T) t = Inr (createFallbackAnalysis t (JStr T))"
  by (cases "ResponseValidator_jsonText (trim T)")
    (auto simp: ResponseValidator_parseAndValidateResponse_JStr ResponseValidator_try_def bindE_def
      split: sum.splits)

lemma keyed_entry:
  assumes "\<not> length (trim transcript) < 50" and "\<not> no_key (api_key e)"
    and "api_key e \<noteq> Some (lit ''your_openrouter_api_key_here'')"
  shows "analyzeTranscript e transcript mentor interviewType
           = analyze_loop performAnalysis e transcript mentor interviewType 1 []"
    and "analyzeTranscript_ai e transcript mentor interviewType
           = analyze_loop performAnalysis_ai e transcript mentor interviewType 1 []"
  using assms by (auto simp: analyzeTranscript_def analyzeTranscript_ai_def)

section \<open>The validators are idempotent\<close>

text \<open>
  Claim C10. Each of the eight validators is idempotent: running it on its own result gives
  that result again, whatever the input is. A validator that throws on an input (an array
  with \<open>null\<close> among the items it maps) throws the same error when it is run twice, since
  the second run never starts. The validators are functions of their argument alone.
\<close>

theorem validators_idempotent:
  "bindE (validateHighlights v) validateHighlights = validateHighlights v
   \<and> bindE (validateImprovements v) validateImprovements = validateImprovements v
   \<and> bindE (validateTechnicalAssessment v) validateTechnicalAssessment = validateTechnicalAssessment v
   \<and> bindE (validateCommunicationAnalysis v) validateCommunicationAnalysis
       = validateCommunicationAnalysis v
   \<and> bindE (validateEntities v) validateEntities = validateEntities v
   \<and> bindE (validateInterviewFlow v) validateInterviewFlow = validateInterviewFlow v
   \<and> bindE (validateOverallRecommendation v) validateOverallRecommendation
       = validateOverallRecommendation v
   \<and> bindE (validateInterviewQuality v) validateInterviewQuality = validateInterviewQuality v"
  by (intro conjI fix_idem)
    (erule validateHighlights_fix validateImprovements_fix validateTechnicalAssessment_fix
      validateCommunicationAnalysis_fix validateEntities_fix validateInterviewFlow_fix
      validateOverallRecommendation_fix validateInterviewQuality_fix)+

text \<open>
  A malformed input: an item whose text is empty and whose confidence is a string, and an
  item that is a number. Both become the item of defaults, and that array is a fixed point.
\<close>

theorem validators_idempotent_witness:
  "validateHighlights (JArr [JObj [(lit ''text'', JStr []), (lit ''confidence'', JStr (lit ''high''))], JNum 3])
     = Inr (JArr (replicate 2 (JObj
         [(lit ''text'', JStr (lit ''Analysis completed'')),
          (lit ''category'', JStr (lit ''general'')),
          (lit ''confidence'', JNum (7 / 10)),
          (lit ''reasoning'', JStr (lit ''Identified as positive indicator''))])))
   \<and> validateHighlights (JArr (replicate 2 (JObj
         [(lit ''text'', JStr (lit ''Analysis completed'')),
          (lit ''category'', JStr (lit ''general'')),
          (lit ''confidence'', JNum (7 / 10)),
          (lit ''reasoning'', JStr (lit ''Identified as positive indicator''))])))
     = Inr (JArr (replicate 2 (JObj
         [(lit ''text'', JStr (lit ''Analysis completed'')),
          (lit ''category'', JStr (lit ''general'')),
          (lit ''confidence'', JNum (7 / 10)),
          (lit ''reasoning'', JStr (lit ''Identified as positive indicator''))])))"
proof -
  let ?x = "JArr [JObj [(lit ''text'', JStr []), (lit ''confidence'', JStr (lit ''high''))], JNum 3]"
  let ?y = "JArr (replicate 2 (JObj
         [(lit ''text'', JStr (lit ''Analysis completed'')),
          (lit ''category'', JStr (lit ''general'')),
          (lit ''confidence'', JNum (7 / 10)),
          (lit ''reasoning'', JStr (lit ''Identified as positive indicator''))]))"
  have once: "validateHighlights ?x = Inr ?y"
    by (simp add: validateHighlights_def highlight_item_eq js_or_def numeral_2_eq_2)
  from validators_idempotent [of ?x] have "bindE (validateHighlights ?x) validateHighlights = validateHighlights ?x"
    by (rule conjunct1)
  with once show ?thesis by simp
qed

section \<open>The decision and the confidence of the recommendation\<close>

text \<open>
  Claim C8. \<open>validateOverallRecommendation\<close> never throws; the decision of its result is
  one of \<open>strong_hire\<close>, \<open>hire\<close>, \<open>maybe\<close>, \<open>no_hire\<close>, and it is \<open>maybe\<close> when the
  decision of the input is none of the four; a confidence that is a number \<open>x\<close> becomes
  \<open>max 1 (min 10 x)\<close>, which lies between 1 and 10.
\<close>

theorem overall_recommendation_decision_confidence:
  "\<exists>r. validateOverallRecommendation rec = Inr r
     \<and> js_includes [''strong_hire'', ''hire'', ''maybe'', ''no_hire''] (optProp r ''decision'')
     \<and> (\<not> js_includes [''strong_hire'', ''hire'', ''maybe'', ''no_hire''] (optProp rec ''decision'')
          \<longrightarrow> optProp r ''decision'' = JStr (lit ''maybe''))
     \<and> (\<forall>x. optProp rec ''confidence'' = JNum x
          \<longrightarrow> optProp r ''confidence'' = JNum (max 1 (min 10 x))
              \<and> 1 \<le> max 1 (min 10 x) \<and> max 1 (min 10 x) \<le> 10)"
  by (auto simp: validateOverallRecommendation_eq js_includes_def)

text \<open>The decision \<open>super_hire\<close> becomes \<open>maybe\<close>, the confidence 15 becomes 10, and -3 becomes 1.\<close>

theorem overall_recommendation_decision_confidence_witness:
  "(\<exists>r. validateOverallRecommendation
           (JObj [(lit ''decision'', JStr (lit ''super_hire'')), (lit ''confidence'', JNum 15)]) = Inr r
        \<and> optProp r ''decision'' = JStr (lit ''maybe'') \<and> optProp r ''confidence'' = JNum 10)
   \<and> (\<exists>r. validateOverallRecommendation (JObj [(lit ''confidence'', JNum (- 3))]) = Inr r
        \<and> optProp r ''confidence'' = JNum 1)"
  using overall_recommendation_decision_confidence
          [of "JObj [(lit ''decision'', JStr (lit ''super_hire'')), (lit ''confidence'', JNum 15)]"]
        overall_recommendation_decision_confidence [of "JObj [(lit ''confidence'', JNum (- 3))]"]
  by (auto simp: js_includes_def)

section \<open>The category and the confidence of a highlight\<close>

text \<open>
  Claim C6, as amended. On a text, \<open>parseAndValidateResponse\<close> returns, and something in
  its \<open>try\<close> block throws exactly when \<open>JSON.parse\<close> rejects the JSON text, or its value
  is \<open>null\<close>, or one of the items that the arrow functions read (the first 6 highlights,
  the first 4 improvements, the first 8 items of the interview flow) is \<open>null\<close>. Then the
  result is the fallback analysis, whose one highlight has the category \<open>general\<close> and
  the confidence 0.5. Otherwise the highlights of the result are as many as the first six
  of the input, and item \<open>i\<close> has the category of item \<open>i\<close> of the input if that is truthy
  and \<open>general\<close> otherwise, and the confidence of the input item if that is a number and
  0.7 otherwise: the category is not compared with a list of categories and the confidence
  is not clamped. So the category of an item of the result is one of the five categories
  whenever the \<open>try\<close> block throws or the input's category is one of them or is falsy, and
  its confidence lies in [0,1] whenever the \<open>try\<close> block throws or the input's confidence
  does or is not a number.
\<close>

theorem highlights_category_confidence:
  "\<not> isl (parseAndValidateResponse (JStr s) t)
   \<and> (isl (parse_try (JStr s))
        \<longleftrightarrow> isl (JSON_parse (jsonText_of s)) \<or> \<not> no_null_read (parsed_of s))
   \<and> (isl (parse_try (JStr s)) \<longrightarrow>
        normalized s t = createFallbackAnalysis t (JStr s)
        \<and> length (elements (optProp (normalized s t) ''highlights'')) = 1
        \<and> optProp (elements (optProp (normalized s t) ''highlights'') ! 0) ''category''
            = JStr (lit ''general'')
        \<and> optProp (elements (optProp (normalized s t) ''highlights'') ! 0) ''confidence''
            = JNum (1 / 2))
   \<and> (\<not> isl (parse_try (JStr s)) \<longrightarrow>
        isArray (optProp (normalized s t) ''highlights'')
        \<and> length (elements (optProp (normalized s t) ''highlights''))
            = min 6 (length (elements (optProp (parsed_of s) ''highlights''))))
   \<and> (\<not> isl (parse_try (JStr s))
        \<and> i < length (elements (optProp (normalized s t) ''highlights'')) \<longrightarrow>
        optProp (elements (optProp (normalized s t) ''highlights'') ! i) ''category''
          = js_or (optProp (elements (optProp (parsed_of s) ''highlights'') ! i) ''category'')
              (JStr (lit ''general''))
        \<and> optProp (elements (optProp (normalized s t) ''highlights'') ! i) ''confidence''
          = (if isNumber (optProp (elements (optProp (parsed_of s) ''highlights'') ! i) ''confidence'')
             then optProp (elements (optProp (parsed_of s) ''highlights'') ! i) ''confidence''
             else JNum (7 / 10)))
   \<and> (i < length (elements (optProp (normalized s t) ''highlights''))
        \<and> (isl (parse_try (JStr s))
           \<or> js_includes highlight_categories
                (optProp (elements (optProp (parsed_of s) ''highlights'') ! i) ''category'')
           \<or> \<not> truthy (optProp (elements (optProp (parsed_of s) ''highlights'') ! i) ''category''))
        \<longrightarrow> js_includes highlight_categories
              (optProp (elements (optProp (normalized s t) ''highlights'') ! i) ''category''))
   \<and> (i < length (elements (optProp (normalized s t) ''highlights''))
        \<and> (isl (parse_try (JStr s))
           \<or> unit_interval (optProp (elements (optProp (parsed_of s) ''highlights'') ! i) ''confidence'')
           \<or> \<not> isNumber (optProp (elements (optProp (parsed_of s) ''highlights'') ! i) ''confidence''))
        \<longrightarrow> unit_interval
              (optProp (elements (optProp (normalized s t) ''highlights'') ! i) ''confidence''))"
proof (cases rule: normalized_cases [of s t])
  case fallback
  then show ?thesis
    using parse_try_isl [of s]
    by (simp add: fallback_highlights js_includes_def highlight_categories_def unit_interval_def)
next
  case validated
  let ?in = "optProp (parsed_of s) ''highlights''"
  let ?out = "optProp (normalized s t) ''highlights''"
  note h = validated_fields(1) [OF validated(5)]
  note e = validateHighlights_elements(2) [OF h]
  have item: "highlight_item (elements ?in ! i) = Inr (elements ?out ! i)"
    if "i < length (elements ?out)"
    using e that by blast
  have arr: "isArray ?out"
    using e by (metis isArray.simps(1))
  show ?thesis
    using validated(1,4) parse_try_isl [of s] arr e highlight_item_fields [OF item]
    by (auto simp: js_or_def js_includes_def highlight_categories_def unit_interval_def)
qed

text \<open>
  A highlight with the category \<open>banana\<close> and the confidence 5 beside an improvement that
  is \<open>null\<close>: the result is the fallback, with \<open>general\<close> and 0.5. A highlight with the
  category \<open>leadership\<close> and the confidence 0.9 keeps both.
\<close>

lemma banana_and_null_parsed:
  "JSON_parse (jsonText_of banana_and_null)
     = Inr (JObj [(lit ''highlights'',
                    JArr [JObj [(lit ''category'', JStr (lit ''banana'')), (lit ''confidence'', JNum 5)]]),
                  (lit ''improvements'', JArr [JNull])])"
  unfolding banana_and_null_def by code_simp

lemma leadership_highlight_parsed:
  "JSON_parse (jsonText_of leadership_highlight)
     = Inr (JObj [(lit ''highlights'',
         JArr [JObj [(lit ''category'', JStr (lit ''leadership'')),
                     (lit ''confidence'', JNum (9 / 10))]])])"
  unfolding leadership_highlight_def by code_simp

theorem highlights_category_confidence_witness:
  "isl (parse_try (JStr banana_and_null))
   \<and> normalized banana_and_null JNull = createFallbackAnalysis JNull (JStr banana_and_null)
   \<and> optProp (elements (optProp (normalized banana_and_null JNull) ''highlights'') ! 0) ''category''
       = JStr (lit ''general'')
   \<and> optProp (elements (optProp (normalized banana_and_null JNull) ''highlights'') ! 0) ''confidence''
       = JNum (1 / 2)
   \<and> \<not> isl (parse_try (JStr leadership_highlight))
   \<and> length (elements (optProp (normalized leadership_highlight JNull) ''highlights'')) = 1
   \<and> optProp (elements (optProp (normalized leadership_highlight JNull) ''highlights'') ! 0) ''category''
       = JStr (lit ''leadership'')
   \<and> js_includes highlight_categories
       (optProp (elements (optProp (normalized leadership_highlight JNull) ''highlights'') ! 0) ''category'')
   \<and> optProp (elements (optProp (normalized leadership_highlight JNull) ''highlights'') ! 0) ''confidence''
       = JNum (9 / 10)
   \<and> unit_interval
       (optProp (elements (optProp (normalized leadership_highlight JNull) ''highlights'') ! 0) ''confidence'')"
proof -
  have b: "isl (parse_try (JStr banana_and_null))"
    by (simp add: parse_try_JStr banana_and_null_parsed validated_isl no_null_read_def
        elements_def present_def)
  have l: "\<not> isl (parse_try (JStr leadership_highlight))"
    by (simp add: parse_try_JStr leadership_highlight_parsed validated_isl no_null_read_def
        elements_def present_def)
  have p: "elements (optProp (parsed_of leadership_highlight) ''highlights'')
     = [JObj [(lit ''category'', JStr (lit ''leadership'')), (lit ''confidence'', JNum (9 / 10))]]"
    by (simp add: parsed_of_def leadership_highlight_parsed elements_def)
  note B = highlights_category_confidence [of banana_and_null JNull 0]
  note L = highlights_category_confidence [of leadership_highlight JNull 0, unfolded p]
  have n: "length (elements (optProp (normalized leadership_highlight JNull) ''highlights'')) = 1"
    using L l by simp
  have c: "optProp (elements (optProp (normalized leadership_highlight JNull) ''highlights'') ! 0)
      ''category'' = JStr (lit ''leadership'')"
    using L l n by (simp add: js_or_def)
  have k: "optProp (elements (optProp (normalized leadership_highlight JNull) ''highlights'') ! 0)
      ''confidence'' = JNum (9 / 10)"
    using L l n by simp
  have "normalized banana_and_null JNull = createFallbackAnalysis JNull (JStr banana_and_null)"
    and "optProp (elements (optProp (normalized banana_and_null JNull) ''highlights'') ! 0) ''category''
       = JStr (lit ''general'')"
    and "optProp (elements (optProp (normalized banana_and_null JNull) ''highlights'') ! 0) ''confidence''
       = JNum (1 / 2)"
    using B b by blast+
  moreover have "js_includes highlight_categories
       (optProp (elements (optProp (normalized leadership_highlight JNull) ''highlights'') ! 0) ''category'')"
    unfolding c by (simp add: js_includes_def highlight_categories_def)
  moreover have "unit_interval
       (optProp (elements (optProp (normalized leadership_highlight JNull) ''highlights'') ! 0) ''confidence'')"
    unfolding k by (simp add: unit_interval_def)
  ultimately show ?thesis
    using b l n c k by blast
qed

text \<open>
  The claim as stated fails: the response \<open>{"highlights":[{"category":"banana","confidence":5}]}\<close>
  is parsed, and the highlight of the result has the category \<open>banana\<close> and the
  confidence 5.
\<close>

lemma banana_parsed:
  \<open>JSON_parse (jsonText_of (lit ''{"highlights":[{"category":"banana","confidence":5}]}''))
     = Inr (JObj [(lit ''highlights'',
         JArr [JObj [(lit ''category'', JStr (lit ''banana'')), (lit ''confidence'', JNum 5)]])])\<close>
  by code_simp

theorem highlights_category_confidence_counterexample:
  \<open>\<not> isl (parseAndValidateResponse
            (JStr (lit ''{"highlights":[{"category":"banana","confidence":5}]}'')) JNull)
   \<and> optProp (elements (optProp (projr (parseAndValidateResponse
            (JStr (lit ''{"highlights":[{"category":"banana","confidence":5}]}'')) JNull))
          ''highlights'') ! 0) ''category'' = JStr (lit ''banana'')
   \<and> \<not> js_includes highlight_categories (JStr (lit ''banana''))
   \<and> optProp (elements (optProp (projr (parseAndValidateResponse
            (JStr (lit ''{"highlights":[{"category":"banana","confidence":5}]}'')) JNull))
          ''highlights'') ! 0) ''confidence'' = JNum 5
   \<and> \<not> unit_interval (JNum 5)\<close>
  by (simp add: parseAndValidateResponse_JStr parse_try_JStr banana_parsed validated_eq
      validateHighlights_JArr highlight_item_eq not_array_defaults elements_def js_or_def
      js_includes_def highlight_categories_def unit_interval_def)

section \<open>The caps truncate\<close>

text \<open>
  Claim C7, as amended. On a text, \<open>parseAndValidateResponse\<close> returns, and something in
  its \<open>try\<close> block throws exactly when \<open>JSON.parse\<close> rejects the JSON text, or its value
  is \<open>null\<close>, or one of the items that the arrow functions read (the first 6 highlights,
  the first 4 improvements, the first 8 items of the interview flow) is \<open>null\<close>. If
  nothing throws, the highlights of the result are an array of as many items as the first
  six of the input, six for an input of 20, and item \<open>i\<close> is what the arrow function makes
  of item \<open>i\<close> of the input; likewise the improvements with 4 and the interview flow with
  8; and the five objects are what their validators build, in which a capped list is the
  first \<open>n\<close> elements of the input's array. So the caps truncate and never pad. If
  something throws, the result is the fallback analysis, whose highlights are one item:
  an input with a \<open>null\<close> among the items that are read is not truncated.
\<close>

theorem caps_truncate:
  "\<not> isl (parseAndValidateResponse (JStr s) t)
   \<and> (isl (parse_try (JStr s))
        \<longleftrightarrow> isl (JSON_parse (jsonText_of s)) \<or> \<not> no_null_read (parsed_of s))
   \<and> (isl (parse_try (JStr s)) \<longrightarrow>
        normalized s t = createFallbackAnalysis t (JStr s)
        \<and> length (elements (optProp (normalized s t) ''highlights'')) = 1)
   \<and> (\<not> isl (parse_try (JStr s)) \<longrightarrow>
        optProp (normalized s t) ''highlights''
          = JArr (elements (optProp (normalized s t) ''highlights''))
        \<and> length (elements (optProp (normalized s t) ''highlights''))
            = min 6 (length (elements (optProp (parsed_of s) ''highlights'')))
        \<and> (length (elements (optProp (parsed_of s) ''highlights'')) = 20 \<longrightarrow>
             length (elements (optProp (normalized s t) ''highlights'')) = 6)
        \<and> (\<forall>i < length (elements (optProp (normalized s t) ''highlights'')).
             highlight_item (elements (optProp (parsed_of s) ''highlights'') ! i)
               = Inr (elements (optProp (normalized s t) ''highlights'') ! i))
        \<and> optProp (normalized s t) ''improvements''
          = JArr (elements (optProp (normalized s t) ''improvements''))
        \<and> length (elements (optProp (normalized s t) ''improvements''))
            = min 4 (length (elements (optProp (parsed_of s) ''improvements'')))
        \<and> (\<forall>i < length (elements (optProp (normalized s t) ''improvements'')).
             improvement_item (elements (optProp (parsed_of s) ''improvements'') ! i)
               = Inr (elements (optProp (normalized s t) ''improvements'') ! i))
        \<and> optProp (normalized s t) ''interview_flow''
          = JArr (elements (optProp (normalized s t) ''interview_flow''))
        \<and> length (elements (optProp (normalized s t) ''interview_flow''))
            = min 8 (length (elements (optProp (parsed_of s) ''interview_flow'')))
        \<and> (\<forall>i < length (elements (optProp (normalized s t) ''interview_flow'')).
             flow_item (elements (optProp (parsed_of s) ''interview_flow'') ! i)
               = Inr (elements (optProp (normalized s t) ''interview_flow'') ! i))
        \<and> optProp (normalized s t) ''technical_assessment''
            = technical_assessment_of (optProp (parsed_of s) ''technical_assessment'')
        \<and> optProp (normalized s t) ''communication_analysis''
            = communication_analysis_of (optProp (parsed_of s) ''communication_analysis'')
        \<and> optProp (normalized s t) ''entities'' = entities_of (optProp (parsed_of s) ''entities'')
        \<and> optProp (normalized s t) ''overall_recommendation''
            = overall_recommendation_of (optProp (parsed_of s) ''overall_recommendation'')
        \<and> optProp (normalized s t) ''interview_quality''
            = interview_quality_of (optProp (parsed_of s) ''interview_quality''))
   \<and> cap n d (JArr zs) = JArr (take n zs)"
proof (cases rule: normalized_cases [of s t])
  case fallback
  then show ?thesis
    using parse_try_isl [of s] by (simp add: fallback_highlights cap_def)
next
  case validated
  note f = validated_fields [OF validated(5)]
  note h = validateHighlights_elements(2) [OF f(1)]
  note i = validateImprovements_elements(2) [OF f(2)]
  note w = validateInterviewFlow_elements(2) [OF f(3)]
  have hl: "optProp (normalized s t) ''highlights''
          = JArr (elements (optProp (normalized s t) ''highlights''))"
    using h by simp
  have im: "optProp (normalized s t) ''improvements''
          = JArr (elements (optProp (normalized s t) ''improvements''))"
    using i by simp
  have fl: "optProp (normalized s t) ''interview_flow''
          = JArr (elements (optProp (normalized s t) ''interview_flow''))"
    using w by simp
  have six: "length (elements (optProp (normalized s t) ''highlights'')) = 6"
    if "length (elements (optProp (parsed_of s) ''highlights'')) = 20"
    using h that by simp
  show ?thesis
    using validated(1,4) parse_try_isl [of s] hl im fl six h i w f(4-8)
    by (simp add: cap_def)
qed

text \<open>
  Twenty highlights with the texts a to t: the result has the items of a to f, in this
  order. Twenty highlights that are numbers beside an improvement that is \<open>null\<close>: the
  result is the fallback, with one highlight.
\<close>

lemma twenty_highlights_parsed:
  "JSON_parse (jsonText_of twenty_highlights)
     = Inr (JObj [(lit ''highlights'',
         JArr (map (\<lambda>n. JObj [(lit ''text'', JStr [97 + n])]) [0..<20]))])"
  unfolding twenty_highlights_def by code_simp

lemma twenty_numbers_parsed:
  "JSON_parse (jsonText_of twenty_numbers)
     = Inr (JObj [(lit ''highlights'', JArr (map (\<lambda>n. JNum (of_nat n)) [1..<21])),
                  (lit ''improvements'', JArr [JNull])])"
  unfolding twenty_numbers_def by code_simp

lemma twenty_highlights_validated:
  "validateHighlights (JArr (map (\<lambda>n. JObj [(lit ''text'', JStr [97 + n])]) [0..<20]))
     = Inr (JArr (map (\<lambda>n. JObj
         [(lit ''text'', JStr [97 + n]),
          (lit ''category'', JStr (lit ''general'')),
          (lit ''confidence'', JNum (7 / 10)),
          (lit ''reasoning'', JStr (lit ''Identified as positive indicator''))]) [0..<6]))"
  by code_simp

theorem caps_truncate_witness:
  "\<not> isl (parse_try (JStr twenty_highlights))
   \<and> length (elements (optProp (parsed_of twenty_highlights) ''highlights'')) = 20
   \<and> length (elements (optProp (normalized twenty_highlights JNull) ''highlights'')) = 6
   \<and> optProp (normalized twenty_highlights JNull) ''highlights''
       = JArr (map (\<lambda>n. JObj
           [(lit ''text'', JStr [97 + n]),
            (lit ''category'', JStr (lit ''general'')),
            (lit ''confidence'', JNum (7 / 10)),
            (lit ''reasoning'', JStr (lit ''Identified as positive indicator''))]) [0..<6])
   \<and> length (elements (optProp (parsed_of twenty_numbers) ''highlights'')) = 20
   \<and> list_all present (elements (optProp (parsed_of twenty_numbers) ''highlights''))
   \<and> isl (parse_try (JStr twenty_numbers))
   \<and> normalized twenty_numbers JNull = createFallbackAnalysis JNull (JStr twenty_numbers)
   \<and> length (elements (optProp (normalized twenty_numbers JNull) ''highlights'')) = 1"
proof -
  let ?xs = "map (\<lambda>n. JObj [(lit ''text'', JStr [97 + n])]) [0..<20]"
  have p: "parsed_of twenty_highlights = JObj [(lit ''highlights'', JArr ?xs)]"
    by (simp add: parsed_of_def twenty_highlights_parsed)
  have q: "parsed_of twenty_numbers
     = JObj [(lit ''highlights'', JArr (map (\<lambda>n. JNum (of_nat n)) [1..<21])),
             (lit ''improvements'', JArr [JNull])]"
    by (simp add: parsed_of_def twenty_numbers_parsed)
  have r: "no_null_read (parsed_of twenty_highlights)"
    unfolding p
    by (auto simp: no_null_read_def elements_def present_def list_all_iff dest!: in_set_takeD)
  have u: "\<not> no_null_read (parsed_of twenty_numbers)"
    unfolding q by (simp add: no_null_read_def elements_def present_def)
  have len: "length (elements (optProp (parsed_of twenty_highlights) ''highlights'')) = 20"
    unfolding p by (simp add: elements_def)
  have len': "length (elements (optProp (parsed_of twenty_numbers) ''highlights'')) = 20"
    and pres: "list_all present (elements (optProp (parsed_of twenty_numbers) ''highlights''))"
    unfolding q by (simp_all add: elements_def present_def list_all_iff)
  have run: "optProp (normalized twenty_highlights JNull) ''highlights''
       = JArr (map (\<lambda>n. JObj
           [(lit ''text'', JStr [97 + n]),
            (lit ''category'', JStr (lit ''general'')),
            (lit ''confidence'', JNum (7 / 10)),
            (lit ''reasoning'', JStr (lit ''Identified as positive indicator''))]) [0..<6])"
    by (simp add: normalized_def parseAndValidateResponse_JStr parse_try_JStr
        twenty_highlights_parsed validated_eq twenty_highlights_validated not_array_defaults)
  have v: "\<not> isl (parse_try (JStr twenty_highlights))"
    using caps_truncate [of twenty_highlights JNull] r
    by (simp add: twenty_highlights_parsed)
  have six: "length (elements (optProp (normalized twenty_highlights JNull) ''highlights'')) = 6"
    using caps_truncate [of twenty_highlights JNull] v len by simp
  have w: "isl (parse_try (JStr twenty_numbers))"
    using caps_truncate [of twenty_numbers JNull] u by simp
  have fb: "normalized twenty_numbers JNull = createFallbackAnalysis JNull (JStr twenty_numbers)"
    and one: "length (elements (optProp (normalized twenty_numbers JNull) ''highlights'')) = 1"
    using caps_truncate [of twenty_numbers JNull 0 JNull "[]"] w by blast+
  show ?thesis
    using v len six run len' pres w fb one by blast
qed

text \<open>
  The claim as stated fails on an array of 20 items that are \<open>null\<close>: the arrow function
  throws a TypeError on the first, \<open>parseAndValidateResponse\<close> catches it and returns
  the fallback, whose highlights are one item.
\<close>

lemma nulls_parsed:
  \<open>JSON_parse (jsonText_of (lit
     ''{"highlights":[null,null,null,null,null,null,null,null,null,null,null,null,null,null,null,null,null,null,null,null]}''))
     = Inr (JObj [(lit ''highlights'', JArr (replicate 20 JNull))])\<close>
  by code_simp

lemma nulls_throw: "validateHighlights (JArr (replicate 20 JNull)) = Inl TypeError"
  by code_simp

theorem caps_truncate_counterexample:
  \<open>length (replicate 20 JNull) = 20
   \<and> validateHighlights (JArr (replicate 20 JNull)) = Inl TypeError
   \<and> parseAndValidateResponse (JStr (lit
       ''{"highlights":[null,null,null,null,null,null,null,null,null,null,null,null,null,null,null,null,null,null,null,null]}''))
       JNull
     = Inr (createFallbackAnalysis JNull (JStr (lit
       ''{"highlights":[null,null,null,null,null,null,null,null,null,null,null,null,null,null,null,null,null,null,null,null]}'')))
   \<and> length (elements (optProp (createFallbackAnalysis JNull (JStr (lit
       ''{"highlights":[null,null,null,null,null,null,null,null,null,null,null,null,null,null,null,null,null,null,null,null]}'')))
       ''highlights'')) = 1\<close>
  by (simp add: parseAndValidateResponse_JStr parse_try_JStr nulls_parsed validated_eq nulls_throw
      createFallbackAnalysis_def elements_def)

section \<open>Every text is normalized to an analysis of the schema's shape\<close>

text \<open>
  Claim C1, as amended. For every text, \<open>parseAndValidateResponse\<close> returns and does not
  throw. What it returns is an object with exactly the eight keys of the schema. Its
  highlights, improvements and interview_flow are arrays of at most 6, 4 and 8 objects,
  the other five fields are objects, and each object has exactly the keys of the schema;
  a list field is an array within its cap, a confidence is a number, and every other
  field is truthy, so no field is \<open>undefined\<close>. On the branch of the validators the
  fields priority, level, clarity and decision have a value of their enumeration and the
  confidence of the recommendation lies in [1,10]. On the fallback branch the result is
  the fallback analysis, which has the same shape with \<open>unknown\<close> for level and clarity.
\<close>

theorem parseAndValidateResponse_shape:
  "\<exists>r. parseAndValidateResponse (JStr s) t = Inr r
     \<and> (parse_try (JStr s) = Inr r \<and> analysis_shape level_values clarity_values r
        \<or> isl (parse_try (JStr s)) \<and> r = createFallbackAnalysis t (JStr s)
           \<and> analysis_shape [''unknown''] [''unknown''] r)"
proof (cases "parse_try (JStr s)")
  case (Inl e)
  then show ?thesis
    by (simp add: parseAndValidateResponse_JStr fallback_shape)
next
  case (Inr r)
  then have "validated (projr (JSON_parse (jsonText_of s))) = Inr r"
    by (cases "JSON_parse (jsonText_of s)") (simp_all add: parse_try_JStr)
  then have "analysis_shape level_values clarity_values r"
    by (rule validated_shape)
  with Inr show ?thesis
    by (simp add: parseAndValidateResponse_JStr)
qed

text \<open>The text \<open>{}\<close> is normalized to the defaults of every field.\<close>

lemma empty_object_parsed: "JSON_parse (jsonText_of (lit ''{}'')) = Inr (JObj [])"
  by code_simp

theorem parseAndValidateResponse_shape_witness:
  "parseAndValidateResponse (JStr (lit ''{}'')) JNull
     = Inr (JObj
       [(lit ''highlights'', JArr []),
        (lit ''improvements'', JArr []),
        (lit ''technical_assessment'', technical_assessment_of JUndefined),
        (lit ''communication_analysis'', communication_analysis_of JUndefined),
        (lit ''entities'', entities_of JUndefined),
        (lit ''interview_flow'', JArr []),
        (lit ''overall_recommendation'', overall_recommendation_of JUndefined),
        (lit ''interview_quality'', interview_quality_of JUndefined)])
   \<and> analysis_shape level_values clarity_values (JObj
       [(lit ''highlights'', JArr []),
        (lit ''improvements'', JArr []),
        (lit ''technical_assessment'', technical_assessment_of JUndefined),
        (lit ''communication_analysis'', communication_analysis_of JUndefined),
        (lit ''entities'', entities_of JUndefined),
        (lit ''interview_flow'', JArr []),
        (lit ''overall_recommendation'', overall_recommendation_of JUndefined),
        (lit ''interview_quality'', interview_quality_of JUndefined)])"
proof -
  have run: "parse_try (JStr (lit ''{}'')) = Inr (JObj
       [(lit ''highlights'', JArr []),
        (lit ''improvements'', JArr []),
        (lit ''technical_assessment'', technical_assessment_of JUndefined),
        (lit ''communication_analysis'', communication_analysis_of JUndefined),
        (lit ''entities'', entities_of JUndefined),
        (lit ''interview_flow'', JArr []),
        (lit ''overall_recommendation'', overall_recommendation_of JUndefined),
        (lit ''interview_quality'', interview_quality_of JUndefined)])"
    by (simp add: parse_try_JStr empty_object_parsed validated_eq not_array_defaults)
  from parseAndValidateResponse_shape [of "lit ''{}''" JNull] show ?thesis
    unfolding run by auto
qed

text \<open>
  The claim as stated fails. On the empty text the result is the fallback, whose level and
  clarity are \<open>unknown\<close>, a value of neither enumeration. On the branch of the validators
  a field need not have the type of the schema: the text \<open>42\<close> of a highlight stays
  the number 42.
\<close>

lemma empty_text_fails: "JSON_parse (jsonText_of []) = Inl SyntaxError"
  by code_simp

lemma text_42_parsed:
  \<open>JSON_parse (jsonText_of (lit ''{"highlights":[{"text":42}]}''))
     = Inr (JObj [(lit ''highlights'', JArr [JObj [(lit ''text'', JNum 42)]])])\<close>
  by code_simp

theorem parseAndValidateResponse_shape_counterexample:
  \<open>parseAndValidateResponse (JStr []) JNull = Inr (createFallbackAnalysis JNull (JStr []))
   \<and> optProp (optProp (createFallbackAnalysis JNull (JStr [])) ''technical_assessment'') ''level''
       = JStr (lit ''unknown'')
   \<and> \<not> js_includes level_values (JStr (lit ''unknown''))
   \<and> optProp (optProp (createFallbackAnalysis JNull (JStr [])) ''communication_analysis'') ''clarity''
       = JStr (lit ''unknown'')
   \<and> \<not> js_includes clarity_values (JStr (lit ''unknown''))
   \<and> \<not> isl (parseAndValidateResponse (JStr (lit ''{"highlights":[{"text":42}]}'')) JNull)
   \<and> optProp (elements (optProp (projr (parseAndValidateResponse
         (JStr (lit ''{"highlights":[{"text":42}]}'')) JNull)) ''highlights'') ! 0) ''text'' = JNum 42
   \<and> \<not> is_string (JNum 42)\<close>
  by (simp add: parseAndValidateResponse_JStr parse_try_JStr empty_text_fails text_42_parsed
      validated_eq validateHighlights_JArr highlight_item_eq not_array_defaults
      createFallbackAnalysis_def elements_def js_or_def js_includes_def level_values_def
      clarity_values_def is_string_def)

section \<open>parseAndValidateResponse never throws on a text\<close>

text \<open>
  Claim C5. For every text, \<open>parseAndValidateResponse\<close> returns a value and does not throw.
  When \<open>JSON.parse\<close> fails on the extracted text, and whenever anything in the \<open>try\<close> block
  throws (a validator that meets \<open>null\<close> in an array included), the value is the
  fallback analysis. Otherwise it is the object of the validators' results, which has the
  shape of the schema.
\<close>

theorem parseAndValidateResponse_total:
  "(\<exists>r. parseAndValidateResponse (JStr s) t = Inr r)
   \<and> (isl (JSON_parse (jsonText_of s))
        \<longrightarrow> parseAndValidateResponse (JStr s) t = Inr (createFallbackAnalysis t (JStr s)))
   \<and> (isl (parse_try (JStr s))
        \<longrightarrow> parseAndValidateResponse (JStr s) t = Inr (createFallbackAnalysis t (JStr s)))
   \<and> (\<not> isl (parse_try (JStr s))
        \<longrightarrow> parseAndValidateResponse (JStr s) t = parse_try (JStr s)
            \<and> analysis_shape level_values clarity_values (projr (parse_try (JStr s))))"
proof (cases "parse_try (JStr s)")
  case (Inl e)
  then show ?thesis
    by (simp add: parseAndValidateResponse_JStr)
next
  case (Inr r)
  then have v: "validated (projr (JSON_parse (jsonText_of s))) = Inr r"
    and p: "\<not> isl (JSON_parse (jsonText_of s))"
    by (cases "JSON_parse (jsonText_of s)"; simp add: parse_try_JStr)+
  from validated_shape [OF v] Inr p show ?thesis
    by (simp add: parseAndValidateResponse_JStr)
qed

text \<open>
  A text with no braces that is not JSON, an object whose highlights hold \<open>null\<close>, and the
  empty object.
\<close>

lemma not_json_fails: "JSON_parse (jsonText_of (lit ''Sorry, I cannot help.'')) = Inl SyntaxError"
  by code_simp

lemma null_item_parsed:
  \<open>JSON_parse (jsonText_of (lit ''{"highlights":[null]}''))
     = Inr (JObj [(lit ''highlights'', JArr [JNull])])\<close>
  by code_simp

theorem parseAndValidateResponse_total_witness:
  \<open>parseAndValidateResponse (JStr (lit ''Sorry, I cannot help.'')) JNull
     = Inr (createFallbackAnalysis JNull (JStr (lit ''Sorry, I cannot help.'')))
   \<and> parse_try (JStr (lit ''{"highlights":[null]}'')) = Inl TypeError
   \<and> parseAndValidateResponse (JStr (lit ''{"highlights":[null]}'')) JNull
     = Inr (createFallbackAnalysis JNull (JStr (lit ''{"highlights":[null]}'')))
   \<and> \<not> isl (parse_try (JStr (lit ''{}'')))
   \<and> parseAndValidateResponse (JStr (lit ''{}'')) JNull = parse_try (JStr (lit ''{}''))
   \<and> analysis_shape level_values clarity_values (projr (parse_try (JStr (lit ''{}''))))\<close>
proof -
  have a: "isl (JSON_parse (jsonText_of (lit ''Sorry, I cannot help.'')))"
    by (simp add: not_json_fails)
  have b: \<open>parse_try (JStr (lit ''{"highlights":[null]}'')) = Inl TypeError\<close>
    by (simp add: parse_try_JStr null_item_parsed validated_eq validateHighlights_JArr
        highlight_item_eq)
  have c: "\<not> isl (parse_try (JStr (lit ''{}'')))"
    by (simp add: parse_try_JStr empty_object_parsed validated_eq not_array_defaults)
  from parseAndValidateResponse_total [of "lit ''Sorry, I cannot help.''" JNull] a
       parseAndValidateResponse_total [of \<open>lit ''{"highlights":[null]}''\<close> JNull] b
       parseAndValidateResponse_total [of "lit ''{}''" JNull] c
  show ?thesis by simp
qed

section \<open>A transcript that is too short\<close>

text \<open>
  Claim C2, as amended. The length that \<open>analyzeTranscript\<close> compares with 50 is the
  length of the transcript without the white space at its two ends. If that length is
  below 50, both orchestrators throw the error at once: the trace is empty, so there was
  no call of the upstream and no delay. And they throw in no other case: if a call throws,
  that length is below 50.
\<close>

theorem short_transcript_is_rejected:
  "(length (trim transcript) < 50 \<longrightarrow>
      analyzeTranscript e transcript mentor interviewType = (Inl (Error too_short), [])
      \<and> analyzeTranscript_ai e transcript mentor interviewType = (Inl (Error too_short), []))
   \<and> (isl (fst (analyzeTranscript e transcript mentor interviewType))
        \<or> isl (fst (analyzeTranscript_ai e transcript mentor interviewType))
      \<longrightarrow> length (trim transcript) < 50)"
  using analyze_loop_returns [of performAnalysis e transcript mentor interviewType 1 "[]"]
        analyze_loop_returns [of performAnalysis_ai e transcript mentor interviewType 1 "[]"]
  by (auto simp: analyzeTranscript_def analyzeTranscript_ai_def too_short_def)

text \<open>The transcript \<open>too short\<close> is rejected, with a key and with an upstream.\<close>

theorem short_transcript_is_rejected_witness:
  "analyzeTranscript unreachable (lit ''too short'') JNull JNull = (Inl (Error too_short), [])
   \<and> analyzeTranscript_ai unreachable (lit ''too short'') JNull JNull = (Inl (Error too_short), [])
   \<and> isl (fst (analyzeTranscript unreachable (lit ''too short'') JNull JNull))
   \<and> length (trim (lit ''too short'')) < 50"
  using short_transcript_is_rejected [of "lit ''too short''" unreachable JNull JNull]
  by (simp add: short_length)

text \<open>
  The claim as stated fails: the transcript of 26 letters with a space between them has 26
  code units that are not white space, fewer than 50; it is 51 code units long when
  trimmed, and both orchestrators return the demo analysis for it.
\<close>

theorem short_transcript_is_rejected_counterexample:
  "length (non_whitespace spaced) < 50
   \<and> analyzeTranscript offline spaced JNull JNull
       = (Inr (generateDemoAnalysis (clock offline 0) spaced JNull JNull), [])
   \<and> analyzeTranscript_ai offline spaced JNull JNull
       = (Inr (getDemoAnalysis (clock offline 0) spaced JNull JNull), [])"
  by (simp add: analyzeTranscript_def analyzeTranscript_ai_def spaced_lengths offline_def no_key_def)
    (simp add: spaced_def)

section \<open>No credentials\<close>

text \<open>
  Claim C9. If the key is not set, is empty, or is the placeholder, \<open>analyzeTranscript\<close>
  returns the demo analysis, whose metadata have \<open>demo_mode\<close> true, and the trace of
  the call is empty: no call of the upstream, no second attempt, no delay. The transcript
  is one that passes the check of its length. The orchestrator of ai-service.js does the
  same.
\<close>

theorem no_credentials_demo:
  assumes "\<not> length (trim transcript) < 50"
    and "no_key (api_key e) \<or> api_key e = Some (lit ''your_openrouter_api_key_here'')"
  shows "analyzeTranscript e transcript mentor interviewType
           = (Inr (generateDemoAnalysis (clock e 0) transcript mentor interviewType), [])
       \<and> optProp (optProp (generateDemoAnalysis (clock e 0) transcript mentor interviewType)
            ''metadata'') ''demo_mode'' = JBool True
       \<and> analyzeTranscript_ai e transcript mentor interviewType
           = (Inr (generateDemoAnalysis (clock e 0) transcript mentor interviewType), [])"
  using assms by (auto simp: analyzeTranscript_def analyzeTranscript_ai_def getDemoAnalysis_def demo_mode)

text \<open>No key, an empty key, and the placeholder.\<close>

theorem no_credentials_demo_witness:
  "analyzeTranscript offline interview JNull JNull
     = (Inr (generateDemoAnalysis (clock offline 0) interview JNull JNull), [])
   \<and> analyzeTranscript (offline\<lparr>api_key := Some []\<rparr>) interview JNull JNull
     = (Inr (generateDemoAnalysis (clock offline 0) interview JNull JNull), [])
   \<and> analyzeTranscript (offline\<lparr>api_key := Some (lit ''your_openrouter_api_key_here'')\<rparr>)
       interview JNull JNull
     = (Inr (generateDemoAnalysis (clock offline 0) interview JNull JNull), [])
   \<and> optProp (optProp (generateDemoAnalysis (clock offline 0) interview JNull JNull)
        ''metadata'') ''demo_mode'' = JBool True"
proof -
  have len: "\<not> length (trim interview) < 50"
    by (simp add: interview_length)
  from no_credentials_demo [OF len, of offline JNull JNull]
       no_credentials_demo [OF len, of "offline\<lparr>api_key := Some []\<rparr>" JNull JNull]
       no_credentials_demo [OF len, of "offline\<lparr>api_key := Some (lit ''your_openrouter_api_key_here'')\<rparr>"
         JNull JNull]
  show ?thesis by (simp add: offline_def no_key_def)
qed

section \<open>Three failures of the transport\<close>

text \<open>
  Claim C3. With a key, and a transcript that passes the check of its length: if each of
  the three calls of the upstream fails at the transport (the connection is refused, or
  the status is not 2xx), \<open>analyzeTranscript\<close> does not throw. It returns the result of
  \<open>generateDemoAnalysis\<close>, whose metadata have \<open>demo_mode\<close> true, after three calls and
  delays of 1000 and 2000 milliseconds. The path without credentials returns the result
  of the same function, and the two results have the same analysis. The orchestrator of
  ai-service.js does the same.
\<close>

theorem transport_failures_fall_back_to_demo:
  assumes "\<not> length (trim transcript) < 50"
    and "\<not> no_key (api_key e)" and "api_key e \<noteq> Some (lit ''your_openrouter_api_key_here'')"
    and "\<forall>n < 3. transport_failure (upstream e n)"
  shows "analyzeTranscript e transcript mentor interviewType
           = (Inr (generateDemoAnalysis (clock e 3) transcript mentor interviewType),
              [Fetch, Sleep 1000, Fetch, Sleep 2000, Fetch])
       \<and> optProp (optProp (generateDemoAnalysis (clock e 3) transcript mentor interviewType)
            ''metadata'') ''demo_mode'' = JBool True
       \<and> fst (analyzeTranscript (e\<lparr>api_key := None\<rparr>) transcript mentor interviewType)
           = Inr (generateDemoAnalysis (clock e 0) transcript mentor interviewType)
       \<and> optProp (generateDemoAnalysis (clock e 3) transcript mentor interviewType) ''analysis''
           = optProp (generateDemoAnalysis (clock e 0) transcript mentor interviewType) ''analysis''
       \<and> analyzeTranscript_ai e transcript mentor interviewType
           = (Inr (generateDemoAnalysis (clock e 3) transcript mentor interviewType),
              [Fetch, Sleep 1000, Fetch, Sleep 2000, Fetch])"
proof -
  have "analyze_loop performAnalysis e transcript mentor interviewType 1 []
       = (Inr (generateDemoAnalysis (clock e 3) transcript mentor interviewType),
          [Fetch, Sleep 1000, Fetch, Sleep 2000, Fetch])"
    by (rule three_failures [OF performAnalysis_transport_failure assms(4)])
  moreover have "analyze_loop performAnalysis_ai e transcript mentor interviewType 1 []
       = (Inr (generateDemoAnalysis (clock e 3) transcript mentor interviewType),
          [Fetch, Sleep 1000, Fetch, Sleep 2000, Fetch])"
    by (rule three_failures [OF performAnalysis_ai_transport_failure assms(4)])
  ultimately show ?thesis
    using assms(1-3) demo_analysis_clock [of "clock e 3" transcript mentor interviewType "clock e 0"]
    by (auto simp: analyzeTranscript_def analyzeTranscript_ai_def demo_mode no_key_def)
qed

text \<open>The connection is refused, then the status is 503, then the connection is refused.\<close>

theorem transport_failures_fall_back_to_demo_witness:
  "analyzeTranscript unreachable interview JNull JNull
     = (Inr (generateDemoAnalysis (clock unreachable 3) interview JNull JNull),
        [Fetch, Sleep 1000, Fetch, Sleep 2000, Fetch])
   \<and> optProp (optProp (generateDemoAnalysis (clock unreachable 3) interview JNull JNull)
        ''metadata'') ''demo_mode'' = JBool True"
proof -
  have "\<not> length (trim interview) < 50"
    by (simp add: interview_length)
  moreover have "\<not> no_key (api_key unreachable)"
    and "api_key unreachable \<noteq> Some (lit ''your_openrouter_api_key_here'')"
    by (simp_all add: unreachable_def no_key_def)
  moreover have "\<forall>n < 3. transport_failure (upstream unreachable n)"
    by (simp add: unreachable_def transport_failure_def ok_def)
  ultimately show ?thesis
    using transport_failures_fall_back_to_demo [of interview unreachable JNull JNull] by blast
qed

section \<open>A text that is returned is not asked for again\<close>


text \<open>
  The upstream answers with the sentence \<open>Sorry, I cannot help.\<close>: both orchestrators
  return the fallback analysis after one call.
\<close>

lemma prose_body_parsed:
  \<open>JSON_parse (lit ''{"choices":[{"message":{"content":"'' @ prose @ lit ''"}}]}'')
     = Inr (JObj [(lit ''choices'', JArr [JObj [(lit ''message'', JObj [(lit ''content'', JStr prose)])]])])\<close>
  by code_simp

lemma prose_returned: "returned_text (chat_completion prose) = Some prose"
  by (simp add: returned_text_def chat_completion_def ok_def json_of_def text_of_def
      prose_body_parsed optIndex_def)

lemma trim_prose: "trim prose = prose"
  by (simp add: trim_def prose_def lit_def isWhiteSpace_def)

lemma prose_not_fenced: "ResponseValidator_jsonText prose = Inr prose"
  by code_simp

lemma prose_unparseable: "JSON_parse prose = Inl SyntaxError \<and> JSON_parse (jsonText_of prose) = Inl SyntaxError"
  by code_simp

lemma no_choices_body_parsed:
  \<open>JSON_parse (lit ''{"choices":[]}'') = Inr (JObj [(lit ''choices'', JArr [])])\<close>
  by code_simp

lemma interview_not_empty: "interview \<noteq> []"
  by (simp add: interview_def lit_def)



end
